theory Spec2Isabelle
  imports Main
begin

section \<open>Python exceptions and container access\<close>

text \<open>
  The dataset class of \<^verbatim>\<open>src/trainer/dataset.py\<close> is embedded as pure functions.
  Every exception the source can raise is a value of \<open>error\<close>; a fallible operation
  returns \<open>error + 'r\<close> with \<open>Inl\<close> for the raised exception.
\<close>

datatype error =
    AssertionError
  | AttributeError string
  | IndexError
  | KeyError int
  | TypeError
  | ValueError
  | RuntimeError
  | FileNotFoundError string
  | UnidentifiedImageError string
  | UnpicklingError string
  | ParserError string

text \<open>
  Subscripting a Python list with an integer: an index from \<open>0\<close> up to the length reads
  from the front, one from minus the length up to \<open>-1\<close> reads from the back, and every
  other index raises IndexError.
\<close>

definition list_get :: "'x list \<Rightarrow> int \<Rightarrow> error + 'x" where
  "list_get xs i =
     (if 0 \<le> i \<and> i < int (length xs) then Inr (xs ! nat i)
      else if - int (length xs) \<le> i \<and> i < 0 then Inr (xs ! nat (int (length xs) + i))
      else Inl IndexError)"

text \<open>
  Indexing a pandas Series that carries the default range index \<open>0..N-1\<close>: an integer
  key is a label, so a key outside the range (negative ones included) raises KeyError.
\<close>

definition series_get :: "'x list \<Rightarrow> int \<Rightarrow> error + 'x" where
  "series_get xs i =
     (if 0 \<le> i \<and> i < int (length xs) then Inr (xs ! nat i) else Inl (KeyError i))"

section \<open>Strings: lowercasing, replacement, paths, decimal numerals\<close>

text \<open>
  Strings are lists of characters of eight bits: an ASCII string as it is, any other
  string as the bytes of its UTF-8 form, in which replacing a non-empty pattern is
  replacing it in the string. \<open>str.lower\<close> belongs to the language's library and is a
  parameter of the model (\<open>str_lower\<close> below): it lowers every cased letter of Unicode
  and may change the length of a string. What the model fixes is its contract on
  ASCII strings, where it maps \<open>A\<close> to \<open>Z\<close> onto \<open>a\<close> to \<open>z\<close> and leaves every
  other character as it is.
\<close>

definition ascii :: "string \<Rightarrow> bool" where
  "ascii s = list_all (\<lambda>c. (of_char c :: nat) < 128) s"

definition ascii_lower_char :: "char \<Rightarrow> char" where
  "ascii_lower_char c =
     (case map_of (zip ''ABCDEFGHIJKLMNOPQRSTUVWXYZ'' ''abcdefghijklmnopqrstuvwxyz'') c of
        None \<Rightarrow> c
      | Some l \<Rightarrow> l)"

definition ascii_lower :: "string \<Rightarrow> string" where
  "ascii_lower s = map ascii_lower_char s"

text \<open>
  \<open>str.replace(old, new)\<close>: all non-overlapping occurrences, scanned from the left.
  After a match at the head the scan resumes behind it: \<open>drop (length old - 1) cs\<close>
  skips the rest of the occurrence in the tail \<open>cs\<close>. An empty \<open>old\<close> puts \<open>new\<close>
  before every character and at the end.
\<close>

fun replace_scan :: "string \<Rightarrow> string \<Rightarrow> string \<Rightarrow> string" where
  "replace_scan old new [] = []"
| "replace_scan old new (c # cs) =
     (if take (length old) (c # cs) = old
      then new @ replace_scan old new (drop (length old - 1) cs)
      else c # replace_scan old new cs)"

definition str_replace :: "string \<Rightarrow> string \<Rightarrow> string \<Rightarrow> string" where
  "str_replace s old new =
     (if old = [] then new @ concat (map (\<lambda>c. c # new) s) else replace_scan old new s)"

text \<open>
  The caption column is a Series of strings with missing entries (NaN, here \<open>None\<close>);
  the \<open>.str\<close> methods keep a missing entry missing. \<open>Series.str.replace\<close> is taken with
  literal patterns (the default of pandas 2). \<open>Series.str.lower\<close> applies the library's
  \<open>str.lower\<close>, here \<open>str_lower\<close>, to every entry.
\<close>

definition series_str_lower ::
  "(string \<Rightarrow> string) \<Rightarrow> string option list \<Rightarrow> string option list" where
  "series_str_lower str_lower col = map (map_option str_lower) col"

definition series_str_replace :: "string option list \<Rightarrow> string \<Rightarrow> string \<Rightarrow> string option list" where
  "series_str_replace col pat repl = map (map_option (\<lambda>s. str_replace s pat repl)) col"

definition series_fillna :: "string option list \<Rightarrow> string \<Rightarrow> string list" where
  "series_fillna col v = map (\<lambda>x. case x of None \<Rightarrow> v | Some s \<Rightarrow> s) col"

text \<open>Lines 47 to 52 of the constructor: the caption column as the dataset stores it.\<close>

definition substitute_captions ::
  "(string \<Rightarrow> string) \<Rightarrow> (string \<times> string) list \<Rightarrow> string option list \<Rightarrow> string list" where
  "substitute_captions str_lower substitute_caption_map col =
     series_fillna
       (fold (\<lambda>(key, value) caps. series_str_replace caps (str_lower key) value)
          substitute_caption_map (series_str_lower str_lower col))
       []"

text \<open>\<open>os.path.join\<close> on POSIX paths, for two components.\<close>

definition path_join :: "string \<Rightarrow> string \<Rightarrow> string" where
  "path_join a b =
     (if b \<noteq> [] \<and> hd b = CHR ''/'' then b
      else if a = [] \<or> last a = CHR ''/'' then a @ b
      else a @ ''/'' @ b)"

text \<open>A missing manifest field is the float NaN, which \<open>os.path.join\<close> rejects.\<close>

definition os_path_join :: "string \<Rightarrow> string option \<Rightarrow> error + string" where
  "os_path_join a b = (case b of None \<Rightarrow> Inl TypeError | Some p \<Rightarrow> Inr (path_join a p))"

text \<open>Decimal numerals, as an f-string formats an integer.\<close>

definition digit_char :: "nat \<Rightarrow> char" where
  "digit_char d = ''0123456789'' ! d"

fun str_nat :: "nat \<Rightarrow> string" where
  "str_nat n = (if n < 10 then [digit_char n] else str_nat (n div 10) @ [digit_char (n mod 10)])"

definition str_int :: "int \<Rightarrow> string" where
  "str_int i = (if i < 0 then CHR ''-'' # str_nat (nat (- i)) else str_nat (nat i))"

definition latent_file :: "string \<Rightarrow> int \<Rightarrow> string" where
  "latent_file data_dir idx = path_join data_dir (str_int idx @ ''_vae_latent.pt'')"

definition mask_file :: "string \<Rightarrow> int \<Rightarrow> string" where
  "mask_file data_dir idx = path_join data_dir (str_int idx @ ''_mask.pt'')"

section \<open>Tensors\<close>

text \<open>
  A tensor is its shape, its elements in row-major order and the gradient flag. The
  element type is a parameter with a one and a product and no laws: nothing proved
  below depends on how the arithmetic rounds. Casts between dtypes and moves between
  devices are not modelled.
\<close>

record 'a tensor =
  shape :: "nat list"
  elems :: "'a list"
  requires_grad :: bool

definition squeeze :: "'a tensor \<Rightarrow> 'a tensor" where
  "squeeze t = t\<lparr>shape := filter (\<lambda>n. n \<noteq> 1) (shape t)\<rparr>"

definition unsqueeze0 :: "'a tensor \<Rightarrow> 'a tensor" where
  "unsqueeze0 t = t\<lparr>shape := 1 # shape t\<rparr>"

definition detach :: "'a tensor \<Rightarrow> 'a tensor" where
  "detach t = t\<lparr>requires_grad := False\<rparr>"

definition mul_scalar :: "'a::times tensor \<Rightarrow> 'a \<Rightarrow> 'a tensor" where
  "mul_scalar t k = t\<lparr>elems := map (\<lambda>x. x * k) (elems t)\<rparr>"

definition ones_like :: "'a tensor \<Rightarrow> 'a::one tensor" where
  "ones_like t =
     \<lparr>shape = shape t, elems = replicate (prod_list (shape t)) 1, requires_grad = False\<rparr>"

text \<open>
  \<open>t.repeat(1, k, 1, 1)\<close> on a tensor of shape \<open>[n, c, h, w]\<close>: the channel block of
  every batch entry is laid out \<open>k\<close> times.
\<close>

definition repeat_channels :: "'a tensor \<Rightarrow> nat \<Rightarrow> error + 'a tensor" where
  "repeat_channels t k =
     (case shape t of
        [n, c, h, w] \<Rightarrow>
          Inr (t\<lparr>shape := [n, c * k, h, w],
                 elems :=
                   concat (map (\<lambda>b. concat (replicate k
                     (take (c * h * w) (drop (b * (c * h * w)) (elems t))))) [0..<n])\<rparr>)
      | _ \<Rightarrow> Inl RuntimeError)"

text \<open>
  \<open>torch.cat(ts, dim=0)\<close>: an empty list is rejected; the tensors must have a first
  dimension and agree on the others.
\<close>

definition torch_cat :: "'a tensor list \<Rightarrow> error + 'a tensor" where
  "torch_cat ts =
     (case ts of
        [] \<Rightarrow> Inl RuntimeError
      | t # rest \<Rightarrow>
          if shape t \<noteq> [] \<and> list_all (\<lambda>u. shape u \<noteq> [] \<and> tl (shape u) = tl (shape t)) rest
          then Inr \<lparr>shape = sum_list (map (\<lambda>u. hd (shape u)) ts) # tl (shape t),
                    elems = concat (map elems ts),
                    requires_grad = list_ex requires_grad ts\<rparr>
          else Inl RuntimeError)"

section \<open>The manifest, the file system and the collaborators\<close>

text \<open>
  The manifest as \<open>pandas.read_csv\<close> returns it: the columns \<open>caption\<close> and
  \<open>image_path\<close> exist, the column \<open>mask_path\<close> may not. A field left empty in the file is
  \<open>None\<close> (NaN). \<open>row_mask_path\<close> is read only when the column exists.
\<close>

record row =
  row_caption :: "string option"
  row_image_path :: "string option"
  row_mask_path :: "string option"

record dataframe =
  has_mask_column :: bool
  rows :: "row list"

text \<open>
  What \<open>torch.save\<close> pickles here: a latent distribution (type \<open>'d\<close>, the encoder's) or
  a tensor. A file is an image (type \<open>'i\<close>, the image library's), a pickle or a manifest.
\<close>

datatype ('a, 'd) pyobj = Dist 'd | Tensor "'a tensor"

datatype ('a, 'd, 'i) disk_file = ImageFile 'i | PickleFile "('a, 'd) pyobj" | CsvFile dataframe

type_synonym ('a, 'd, 'i) filesystem = "string \<Rightarrow> ('a, 'd, 'i) disk_file option"

text \<open>
  The state outside the object: the files, the state of torch's random generator, and
  how often \<open>torch.cuda.empty_cache()\<close> has run.
\<close>

record ('a, 'd, 'i) world =
  fs :: "('a, 'd, 'i) filesystem"
  rng :: nat
  empty_cache_calls :: nat

definition read_csv :: "('a, 'd, 'i) filesystem \<Rightarrow> string \<Rightarrow> error + dataframe" where
  "read_csv files path =
     (case files path of
        None \<Rightarrow> Inl (FileNotFoundError path)
      | Some (CsvFile df) \<Rightarrow> Inr df
      | Some _ \<Rightarrow> Inl (ParserError path))"

definition image_open :: "('a, 'd, 'i) filesystem \<Rightarrow> string \<Rightarrow> error + 'i" where
  "image_open files path =
     (case files path of
        None \<Rightarrow> Inl (FileNotFoundError path)
      | Some (ImageFile img) \<Rightarrow> Inr img
      | Some _ \<Rightarrow> Inl (UnidentifiedImageError path))"

definition torch_load :: "('a, 'd, 'i) filesystem \<Rightarrow> string \<Rightarrow> error + ('a, 'd) pyobj" where
  "torch_load files path =
     (case files path of
        None \<Rightarrow> Inl (FileNotFoundError path)
      | Some (PickleFile obj) \<Rightarrow> Inr obj
      | Some _ \<Rightarrow> Inl (UnpicklingError path))"

definition torch_save ::
  "('a, 'd) pyobj \<Rightarrow> string \<Rightarrow> ('a, 'd, 'i) world \<Rightarrow> ('a, 'd, 'i) world" where
  "torch_save obj path w = w\<lparr>fs := (fs w)(path \<mapsto> PickleFile obj)\<rparr>"

text \<open>
  The injected collaborators and the libraries, by their contracts: the image
  processor of \<open>pipe\<close>, the encoder (its \<open>encode(...).latent_dist\<close> may raise), the image
  library, sampling a latent distribution (it advances the random generator), and the
  bucket manager (type \<open>'b\<close>), whose module is not part of the sources. Two library
  functions are parameters as well, since the model does not fix what they compute:
  \<open>str_lower\<close> is \<open>str.lower\<close>, and \<open>interpolate\<close> is
  \<open>torch.nn.functional.interpolate(t, size=(h, w), mode="nearest")\<close>, which works in
  floating point and may raise.
\<close>

record ('a, 'i) pipe =
  preprocess :: "'i \<Rightarrow> 'a tensor"

record ('a, 'd) encoder =
  scaling_factor :: 'a
  encode :: "'a tensor \<Rightarrow> error + 'd"

record ('a, 'd, 'i, 'b) env =
  convert :: "'i \<Rightarrow> string \<Rightarrow> 'i"
  resize_bicubic :: "'i \<Rightarrow> nat \<times> nat \<Rightarrow> 'i"
  image_size :: "'i \<Rightarrow> nat \<times> nat"
  luminance_array :: "'i \<Rightarrow> 'a tensor"
  sample :: "'d \<Rightarrow> nat \<Rightarrow> 'a tensor \<times> nat"
  BucketManager :: "(nat \<times> nat \<times> nat) list \<Rightarrow> int \<Rightarrow> error + 'b"
  get_batch :: "'b \<Rightarrow> (error + int list \<times> nat \<times> nat) \<times> 'b"
  str_lower :: "string \<Rightarrow> string"
  interpolate :: "'a tensor \<Rightarrow> nat \<times> nat \<Rightarrow> error + 'a tensor"

section \<open>The dataset object\<close>

text \<open>
  The attribute \<open>size\<close> is the field \<open>size'\<close>, a pair for \<open>(size[0], size[1])\<close>.
  An attribute the constructor never assigns (\<open>tokenizer_2\<close>) is \<open>AttrUndefined\<close>:
  reading it raises AttributeError. \<open>vae_encoder\<close> is \<open>None\<close> once \<open>del\<close> has removed it.
  The attributes \<open>csv_path\<close> and \<open>text_dropout\<close> are never read and are left out.
\<close>

datatype pyattr = AttrUndefined | AttrNone | AttrObject

record ('a, 'd, 'i, 'b) dataset =
  data_dir :: string
  data :: dataframe
  captions :: "string list"
  image_path :: "string option list"
  mask_path :: "string option list option"
  pipe :: "('a, 'i) pipe"
  vae_encoder :: "('a, 'd) encoder option"
  vae_scaling_factor :: 'a
  size' :: "nat \<times> nat"
  do_cache :: bool
  vae_latents :: "'d list option"
  masks :: "'a tensor list option"
  bucket_manager :: "'b option"
  tokenizer_2 :: pyattr

text \<open>The constructor's arguments (\<open>size\<close> is the pair \<open>(size[0], size[1])\<close>).\<close>

record ('a, 'd, 'i) init_args =
  arg_data_dir :: string
  arg_pipe :: "('a, 'i) pipe"
  arg_vae_encoder :: "('a, 'd) encoder"
  arg_size :: "nat \<times> nat"
  arg_aspect_ratio_bucketing :: bool
  arg_train_batch_size :: "int option"
  arg_substitute_caption_map :: "(string \<times> string) list"

section \<open>Preparing one example\<close>

definition prepare_image ::
  "('a, 'd, 'i, 'b) env \<Rightarrow> 'i \<Rightarrow> nat \<times> nat \<Rightarrow> ('a, 'i) pipe \<Rightarrow> 'a tensor" where
  "prepare_image env pil_image wh p = preprocess p (resize_bicubic env pil_image wh)"

text \<open>
  \<open>prepare_mask\<close>: \<open>luminance_array\<close> stands for
  \<open>np.array(...).astype(np.float32) / 255.0\<close>; \<open>np.expand_dims(arr, 0)\<close> and
  \<open>unsqueeze(0)\<close> each add a leading dimension.
\<close>

definition prepare_mask :: "('a, 'd, 'i, 'b) env \<Rightarrow> 'i \<Rightarrow> nat \<times> nat \<Rightarrow> 'a tensor" where
  "prepare_mask env pil_image wh =
     unsqueeze0 (unsqueeze0 (luminance_array env (convert env (resize_bicubic env pil_image wh) ''L'')))"

text \<open>Lines 164 to 175 of \<open>_process\<close>: the mask of a row read from its file.\<close>

definition mask_from_file ::
  "('a, 'd, 'i, 'b) env \<Rightarrow> ('a, 'd, 'i, 'b) dataset \<Rightarrow> string option list \<Rightarrow> int \<Rightarrow>
   'a tensor \<Rightarrow> ('a, 'd, 'i) filesystem \<Rightarrow> error + 'a tensor" where
  "mask_from_file env self col idx dummy_vae_latent files =
     (case series_get col idx of Inl e \<Rightarrow> Inl e | Inr p \<Rightarrow>
     (case os_path_join (data_dir self) p of Inl e \<Rightarrow> Inl e | Inr path \<Rightarrow>
     (case image_open files path of Inl e \<Rightarrow> Inl e | Inr img \<Rightarrow>
     (case list_get (shape dummy_vae_latent) (- 2) of Inl e \<Rightarrow> Inl e | Inr lh \<Rightarrow>
     (case list_get (shape dummy_vae_latent) (- 1) of Inl e \<Rightarrow> Inl e | Inr lw \<Rightarrow>
     (case interpolate env (prepare_mask env img (size' self)) (lh, lw) of
        Inl e \<Rightarrow> Inl e
      | Inr mask_t \<Rightarrow>
     (case list_get (shape dummy_vae_latent) 1 of Inl e \<Rightarrow> Inl e | Inr c \<Rightarrow>
      repeat_channels mask_t c)))))))"

text \<open>
  Lines 160 to 175: the mask of a row, all ones when the manifest has no mask column.
\<close>

definition make_mask ::
  "('a::one, 'd, 'i, 'b) env \<Rightarrow> ('a, 'd, 'i, 'b) dataset \<Rightarrow> int \<Rightarrow> 'a tensor \<Rightarrow>
   ('a, 'd, 'i) filesystem \<Rightarrow> error + 'a tensor" where
  "make_mask env self idx dummy_vae_latent files =
     (case mask_path self of
        None \<Rightarrow> Inr (ones_like dummy_vae_latent)
      | Some col \<Rightarrow> mask_from_file env self col idx dummy_vae_latent files)"

text \<open>
  Lines 157 to 179: from the latent distribution on. One sample is drawn (the
  generator advances), the mask is made, the ranks are asserted.
\<close>

definition finish_process ::
  "('a::one, 'd, 'i, 'b) env \<Rightarrow> ('a, 'd, 'i, 'b) dataset \<Rightarrow> int \<Rightarrow> string \<Rightarrow> 'd \<Rightarrow>
   ('a, 'd, 'i) world \<Rightarrow> (error + 'd \<times> 'a tensor \<times> string) \<times> ('a, 'd, 'i) world" where
  "finish_process env self idx path vae_latent w =
     (let dummy_vae_latent = fst (sample env vae_latent (rng w));
          w' = w\<lparr>rng := snd (sample env vae_latent (rng w))\<rparr> in
      case make_mask env self idx dummy_vae_latent (fs w') of
        Inl e \<Rightarrow> (Inl e, w')
      | Inr mask_t \<Rightarrow>
          if length (shape mask_t) = 4 \<and> length (shape dummy_vae_latent) = 4
          then (Inr (vae_latent, squeeze mask_t, path), w')
          else (Inl AssertionError, w'))"

text \<open>
  \<open>_process\<close>: the latent distribution, the squeezed mask and the image path of row
  \<open>idx\<close>. The image is transformed at \<open>bucketing_resolution\<close> when one is given, at
  \<open>self.size\<close> otherwise.
\<close>

definition process ::
  "('a::one, 'd, 'i, 'b) env \<Rightarrow> ('a, 'd, 'i, 'b) dataset \<Rightarrow> int \<Rightarrow> (nat \<times> nat) option \<Rightarrow>
   ('a, 'd, 'i) world \<Rightarrow> (error + 'd \<times> 'a tensor \<times> string) \<times> ('a, 'd, 'i) world" where
  "process env self idx bucketing_resolution w =
     (case series_get (image_path self) idx of Inl e \<Rightarrow> (Inl e, w) | Inr p \<Rightarrow>
     (case os_path_join (data_dir self) p of Inl e \<Rightarrow> (Inl e, w) | Inr path \<Rightarrow>
     (case image_open (fs w) path of Inl e \<Rightarrow> (Inl e, w) | Inr img \<Rightarrow>
     (case vae_encoder self of
        None \<Rightarrow> (Inl (AttributeError ''vae_encoder''), w)
      | Some enc \<Rightarrow>
     (case encode enc
             (prepare_image env (convert env img ''RGB'')
                (case bucketing_resolution of None \<Rightarrow> size' self | Some r \<Rightarrow> r) (pipe self)) of
        Inl e \<Rightarrow> (Inl e, w)
      | Inr vae_latent \<Rightarrow> finish_process env self idx path vae_latent w)))))"

section \<open>Construction\<close>

text \<open>
  The eager pass, in memory: the loop of lines 74 to 77. The two lists are what
  \<open>self.vae_latents\<close> and \<open>self.masks\<close> hold so far; \<open>_process\<close> reads neither.
\<close>

fun cache_in_memory ::
  "('a::one, 'd, 'i, 'b) env \<Rightarrow> ('a, 'd, 'i, 'b) dataset \<Rightarrow> nat list \<Rightarrow>
   'd list \<times> 'a tensor list \<Rightarrow> ('a, 'd, 'i) world \<Rightarrow>
   (error + 'd list \<times> 'a tensor list) \<times> ('a, 'd, 'i) world" where
  "cache_in_memory env self [] acc w = (Inr acc, w)"
| "cache_in_memory env self (idx # idxs) (lats, msks) w =
     (case process env self (int idx) None w of
        (Inl e, w') \<Rightarrow> (Inl e, w')
      | (Inr (vae_latent, mask_t, _), w') \<Rightarrow>
          cache_in_memory env self idxs (lats @ [vae_latent], msks @ [detach mask_t]) w')"

text \<open>The eager pass, on disk: the loop of lines 84 to 87.\<close>

fun cache_on_disk ::
  "('a::one, 'd, 'i, 'b) env \<Rightarrow> ('a, 'd, 'i, 'b) dataset \<Rightarrow> nat list \<Rightarrow>
   ('a, 'd, 'i) world \<Rightarrow> (error + unit) \<times> ('a, 'd, 'i) world" where
  "cache_on_disk env self [] w = (Inr (), w)"
| "cache_on_disk env self (idx # idxs) w =
     (case process env self (int idx) None w of
        (Inl e, w') \<Rightarrow> (Inl e, w')
      | (Inr (vae_latent, mask_t, _), w') \<Rightarrow>
          cache_on_disk env self idxs
            (torch_save (Tensor mask_t) (mask_file (data_dir self) (int idx))
               (torch_save (Dist vae_latent) (latent_file (data_dir self) (int idx)) w')))"

text \<open>Lines 69 to 87: the eager pass in the mode \<open>do_cache\<close> selects.\<close>

definition eager_pass ::
  "('a::one, 'd, 'i, 'b) env \<Rightarrow> ('a, 'd, 'i, 'b) dataset \<Rightarrow> ('a, 'd, 'i) world \<Rightarrow>
   (error + ('a, 'd, 'i, 'b) dataset) \<times> ('a, 'd, 'i) world" where
  "eager_pass env self w =
     (if do_cache self then
        (case cache_in_memory env self [0..<length (rows (data self))] ([], []) w of
           (Inl e, w') \<Rightarrow> (Inl e, w')
         | (Inr (ls, ms), w') \<Rightarrow> (Inr (self\<lparr>vae_latents := Some ls, masks := Some ms\<rparr>), w'))
      else
        (case cache_on_disk env self [0..<length (rows (data self))] w of
           (Inl e, w') \<Rightarrow> (Inl e, w')
         | (Inr _, w') \<Rightarrow> (Inr (self\<lparr>vae_latents := None, masks := None\<rparr>), w')))"

text \<open>
  The world in which the eager pass calls \<open>_process\<close> for row \<open>k\<close>: the one its loop has
  reached after the rows before \<open>k\<close>.
\<close>

definition world_at_row ::
  "('a::one, 'd, 'i, 'b) env \<Rightarrow> ('a, 'd, 'i, 'b) dataset \<Rightarrow> nat \<Rightarrow> ('a, 'd, 'i) world \<Rightarrow>
   ('a, 'd, 'i) world" where
  "world_at_row env self k w =
     (if do_cache self then snd (cache_in_memory env self [0..<k] ([], []) w)
      else snd (cache_on_disk env self [0..<k] w))"

text \<open>Lines 96 to 98: the pixel size of every image, in index order.\<close>

fun aspect_ratios ::
  "('a, 'd, 'i, 'b) env \<Rightarrow> ('a, 'd, 'i, 'b) dataset \<Rightarrow> ('a, 'd, 'i) filesystem \<Rightarrow>
   nat list \<Rightarrow> error + (nat \<times> nat \<times> nat) list" where
  "aspect_ratios env self files [] = Inr []"
| "aspect_ratios env self files (idx # idxs) =
     (case series_get (image_path self) (int idx) of Inl e \<Rightarrow> Inl e | Inr p \<Rightarrow>
     (case os_path_join (data_dir self) p of Inl e \<Rightarrow> Inl e | Inr path \<Rightarrow>
     (case image_open files path of Inl e \<Rightarrow> Inl e | Inr img \<Rightarrow>
     (case aspect_ratios env self files idxs of Inl e \<Rightarrow> Inl e | Inr rest \<Rightarrow>
      Inr ((idx, image_size env img) # rest)))))"

text \<open>Lines 92 to 107: the bucket manager, when bucketing is asked for.\<close>

definition setup_bucketing ::
  "('a, 'd, 'i, 'b) env \<Rightarrow> ('a, 'd, 'i) init_args \<Rightarrow> ('a, 'd, 'i, 'b) dataset \<Rightarrow>
   ('a, 'd, 'i) filesystem \<Rightarrow> error + ('a, 'd, 'i, 'b) dataset" where
  "setup_bucketing env args self files =
     (if arg_aspect_ratio_bucketing args then
        (case arg_train_batch_size args of
           None \<Rightarrow> Inl AssertionError
         | Some bsz \<Rightarrow>
          (case aspect_ratios env self files [0..<length (rows (data self))] of
             Inl e \<Rightarrow> Inl e
           | Inr ars \<Rightarrow>
            (case BucketManager env ars bsz of
               Inl e \<Rightarrow> Inl e
             | Inr bm \<Rightarrow> Inr (self\<lparr>bucket_manager := Some bm\<rparr>))))
      else Inr (self\<lparr>bucket_manager := None\<rparr>))"

text \<open>Lines 43 to 67: the attributes assigned before the eager pass.\<close>

definition init_attributes ::
  "('a, 'd, 'i, 'b) env \<Rightarrow> ('a, 'd, 'i) init_args \<Rightarrow> dataframe \<Rightarrow> ('a, 'd, 'i, 'b) dataset" where
  "init_attributes env args df =
     \<lparr>data_dir = arg_data_dir args,
      data = df,
      captions = substitute_captions (str_lower env) (arg_substitute_caption_map args)
                   (map row_caption (rows df)),
      image_path = map row_image_path (rows df),
      mask_path = (if has_mask_column df then Some (map row_mask_path (rows df)) else None),
      pipe = arg_pipe args,
      vae_encoder = Some (arg_vae_encoder args),
      vae_scaling_factor = scaling_factor (arg_vae_encoder args),
      size' = arg_size args,
      do_cache = (length (rows df) < 500),
      vae_latents = None,
      masks = None,
      bucket_manager = None,
      tokenizer_2 = AttrUndefined\<rparr>"

text \<open>Lines 89 and 90: \<open>del self.vae_encoder\<close> and \<open>torch.cuda.empty_cache()\<close>.\<close>

definition release_encoder ::
  "('a, 'd, 'i, 'b) dataset \<times> ('a, 'd, 'i) world \<Rightarrow>
   ('a, 'd, 'i, 'b) dataset \<times> ('a, 'd, 'i) world" where
  "release_encoder sw =
     ((fst sw)\<lparr>vae_encoder := None\<rparr>,
      (snd sw)\<lparr>empty_cache_calls := Suc (empty_cache_calls (snd sw))\<rparr>)"

text \<open>
  \<open>__init__\<close>: the manifest, the attributes, the eager pass, the release of the
  encoder, the bucket manager. An exception leaves the constructor at once, with the
  world as it is then.
\<close>

definition init ::
  "('a::one, 'd, 'i, 'b) env \<Rightarrow> ('a, 'd, 'i) init_args \<Rightarrow> ('a, 'd, 'i) world \<Rightarrow>
   (error + ('a, 'd, 'i, 'b) dataset) \<times> ('a, 'd, 'i) world" where
  "init env args w =
     (case read_csv (fs w) (path_join (arg_data_dir args) ''captions.csv'') of
        Inl e \<Rightarrow> (Inl e, w)
      | Inr df \<Rightarrow>
         (case eager_pass env (init_attributes env args df) w of
            (Inl e, w1) \<Rightarrow> (Inl e, w1)
          | (Inr self, w1) \<Rightarrow>
              (setup_bucketing env args (fst (release_encoder (self, w1)))
                 (fs (snd (release_encoder (self, w1)))),
               snd (release_encoder (self, w1)))))"

definition len :: "('a, 'd, 'i, 'b) dataset \<Rightarrow> nat" where
  "len self = length (rows (data self))"

section \<open>Reading an example\<close>

text \<open>
  What remains of \<open>__getitem__\<close> once the latent distribution is at hand: one sample is
  drawn (the generator advances) and scaled.
\<close>

definition sample_scaled ::
  "('a::times, 'd, 'i, 'b) env \<Rightarrow> ('a, 'd, 'i, 'b) dataset \<Rightarrow> 'd \<Rightarrow> ('a, 'd, 'i) world \<Rightarrow>
   'a tensor \<times> ('a, 'd, 'i) world" where
  "sample_scaled env self d w =
     (mul_scalar (fst (sample env d (rng w))) (vae_scaling_factor self),
      w\<lparr>rng := snd (sample env d (rng w))\<rparr>)"

text \<open>
  \<open>__getitem__\<close>. The parameter \<open>bucketing_resolution\<close> is not used by the body. A
  \<open>None\<close> in \<open>vae_latents\<close> or \<open>masks\<close> is not subscriptable; an object loaded from disk
  must have the method called on it.
\<close>

definition getitem ::
  "('a::times, 'd, 'i, 'b) env \<Rightarrow> ('a, 'd, 'i, 'b) dataset \<Rightarrow> int \<Rightarrow> (nat \<times> nat) option \<Rightarrow>
   ('a, 'd, 'i) world \<Rightarrow> (error + string \<times> 'a tensor \<times> 'a tensor) \<times> ('a, 'd, 'i) world" where
  "getitem env self idx bucketing_resolution w =
     (if do_cache self then
        (case vae_latents self of None \<Rightarrow> (Inl TypeError, w) | Some ls \<Rightarrow>
        (case list_get ls idx of Inl e \<Rightarrow> (Inl e, w) | Inr d \<Rightarrow>
        (case sample_scaled env self d w of (vae_latent, w') \<Rightarrow>
        (case series_get (captions self) idx of Inl e \<Rightarrow> (Inl e, w') | Inr caption \<Rightarrow>
        (case masks self of None \<Rightarrow> (Inl TypeError, w') | Some ms \<Rightarrow>
        (case list_get ms idx of Inl e \<Rightarrow> (Inl e, w') | Inr mask_t \<Rightarrow>
         (Inr (caption, detach (squeeze vae_latent), detach mask_t), w')))))))
      else
        (case torch_load (fs w) (latent_file (data_dir self) idx) of
           Inl e \<Rightarrow> (Inl e, w)
         | Inr (Tensor _) \<Rightarrow> (Inl (AttributeError ''sample''), w)
         | Inr (Dist d) \<Rightarrow>
        (case sample_scaled env self d w of (vae_latent, w') \<Rightarrow>
        (case torch_load (fs w') (mask_file (data_dir self) idx) of
           Inl e \<Rightarrow> (Inl e, w')
         | Inr mobj \<Rightarrow>
        (case series_get (captions self) idx of Inl e \<Rightarrow> (Inl e, w') | Inr caption \<Rightarrow>
        (case mobj of
           Dist _ \<Rightarrow> (Inl (AttributeError ''detach''), w')
         | Tensor mask_t \<Rightarrow>
             (Inr (caption, detach (squeeze vae_latent), detach mask_t), w')))))))"

section \<open>Bucketed batches\<close>

text \<open>
  What the method handles is dynamically typed: the first component \<open>__getitem__\<close>
  returns is a string, and the method treats it as a tensor or as a pair of tensors.
\<close>

datatype 'a pyval = PStr string | PTensor "'a tensor" | PNone | PTuple "'a pyval list"

definition py_unsqueeze0 :: "'a pyval \<Rightarrow> error + 'a tensor" where
  "py_unsqueeze0 v =
     (case v of PTensor t \<Rightarrow> Inr (unsqueeze0 t) | _ \<Rightarrow> Inl (AttributeError ''unsqueeze''))"

text \<open>Unpacking a string into two targets: it must have exactly two characters.\<close>

definition str_unpack2 :: "string \<Rightarrow> error + string \<times> string" where
  "str_unpack2 s = (case s of [a, b] \<Rightarrow> Inr ([a], [b]) | _ \<Rightarrow> Inl ValueError)"

text \<open>
  Lines 116 to 123, the body of the loop once \<open>__getitem__\<close> has returned, by the
  value of \<open>tokenizer_2\<close>: the lists with the example appended.
\<close>

definition append_example ::
  "pyattr \<Rightarrow> string \<times> 'a tensor \<times> 'a tensor \<Rightarrow>
   'a tensor list \<times> 'a tensor list \<times> 'a tensor list \<times> 'a tensor list \<Rightarrow>
   error + 'a tensor list \<times> 'a tensor list \<times> 'a tensor list \<times> 'a tensor list" where
  "append_example tok2_attr item acc =
     (case item of (c, v, m) \<Rightarrow>
     (case acc of (tok1, tok2, lats, msks) \<Rightarrow>
        if tok2_attr = AttrNone then
          (case py_unsqueeze0 (PStr c) of Inl e \<Rightarrow> Inl e | Inr t1u \<Rightarrow>
             Inr (tok1 @ [t1u], tok2, lats @ [unsqueeze0 v], msks @ [unsqueeze0 m]))
        else
          (case str_unpack2 c of Inl e \<Rightarrow> Inl e | Inr (t1, t2) \<Rightarrow>
          (case py_unsqueeze0 (PStr t2) of Inl e \<Rightarrow> Inl e | Inr t2u \<Rightarrow>
          (case py_unsqueeze0 (PStr t1) of Inl e \<Rightarrow> Inl e | Inr t1u \<Rightarrow>
             Inr (tok1 @ [t1u], tok2 @ [t2u], lats @ [unsqueeze0 v], msks @ [unsqueeze0 m]))))))"

text \<open>The loop of lines 114 to 123, over the indices of the batch.\<close>

fun collect_batch ::
  "('a::times, 'd, 'i, 'b) env \<Rightarrow> ('a, 'd, 'i, 'b) dataset \<Rightarrow> nat \<times> nat \<Rightarrow> int list \<Rightarrow>
   'a tensor list \<times> 'a tensor list \<times> 'a tensor list \<times> 'a tensor list \<Rightarrow>
   ('a, 'd, 'i) world \<Rightarrow>
   (error + 'a tensor list \<times> 'a tensor list \<times> 'a tensor list \<times> 'a tensor list) \<times>
   ('a, 'd, 'i) world" where
  "collect_batch env self resolution [] acc w = (Inr acc, w)"
| "collect_batch env self resolution (idx # indices) acc w =
     (if tokenizer_2 self = AttrUndefined then (Inl (AttributeError ''tokenizer_2''), w)
      else
        (case getitem env self idx (Some resolution) w of
           (Inl e, w') \<Rightarrow> (Inl e, w')
         | (Inr item, w') \<Rightarrow>
            (case append_example (tokenizer_2 self) item acc of
               Inl e \<Rightarrow> (Inl e, w')
             | Inr acc' \<Rightarrow> collect_batch env self resolution indices acc' w')))"

text \<open>Lines 125 to 136: stacking the collected lists and returning the batch.\<close>

definition stack_batch ::
  "pyattr \<Rightarrow>
   'a tensor list \<times> 'a tensor list \<times> 'a tensor list \<times> 'a tensor list \<Rightarrow> error + 'a pyval" where
  "stack_batch tok2_attr acc =
     (case acc of (tok1, tok2, lats, msks) \<Rightarrow>
     (case torch_cat tok1 of Inl e \<Rightarrow> Inl e | Inr t1 \<Rightarrow>
     (case tok2_attr of
        AttrUndefined \<Rightarrow> Inl (AttributeError ''tokenizer_2'')
      | AttrNone \<Rightarrow>
          (case torch_cat lats of Inl e \<Rightarrow> Inl e | Inr ls \<Rightarrow>
          (case torch_cat msks of Inl e \<Rightarrow> Inl e | Inr ms \<Rightarrow>
           Inr (PTuple [PTuple [PTensor t1, PNone], PTensor ls, PTensor ms])))
      | AttrObject \<Rightarrow>
          (case torch_cat tok2 of Inl e \<Rightarrow> Inl e | Inr t2 \<Rightarrow>
          (case torch_cat lats of Inl e \<Rightarrow> Inl e | Inr ls \<Rightarrow>
          (case torch_cat msks of Inl e \<Rightarrow> Inl e | Inr ms \<Rightarrow>
           Inr (PTuple [PTuple [PTensor t1, PTensor t2], PTensor ls, PTensor ms])))))))"

text \<open>
  \<open>get_aspect_ratio_bucketed_batch\<close>. The bucket manager's cursor moves, so the
  method returns the dataset with the manager as \<open>get_batch\<close> left it.
\<close>

definition get_aspect_ratio_bucketed_batch ::
  "('a::times, 'd, 'i, 'b) env \<Rightarrow> ('a, 'd, 'i, 'b) dataset \<Rightarrow> ('a, 'd, 'i) world \<Rightarrow>
   (error + 'a pyval) \<times> ('a, 'd, 'i, 'b) dataset \<times> ('a, 'd, 'i) world" where
  "get_aspect_ratio_bucketed_batch env self w =
     (case bucket_manager self of
        None \<Rightarrow> (Inl AssertionError, self, w)
      | Some bm \<Rightarrow>
          (case get_batch env bm of
             (Inl e, bm') \<Rightarrow> (Inl e, self\<lparr>bucket_manager := Some bm'\<rparr>, w)
           | (Inr (indices, resolution), bm') \<Rightarrow>
               (case collect_batch env (self\<lparr>bucket_manager := Some bm'\<rparr>) resolution indices
                       ([], [], [], []) w of
                  (Inl e, w') \<Rightarrow> (Inl e, self\<lparr>bucket_manager := Some bm'\<rparr>, w')
                | (Inr acc, w') \<Rightarrow>
                    (stack_batch (tokenizer_2 self) acc,
                     self\<lparr>bucket_manager := Some bm'\<rparr>, w'))))"

text \<open>
  The dataset and the world after \<open>n\<close> calls of the method, whatever the calls
  returned or raised.
\<close>

fun after_batches ::
  "('a::times, 'd, 'i, 'b) env \<Rightarrow> nat \<Rightarrow> ('a, 'd, 'i, 'b) dataset \<Rightarrow> ('a, 'd, 'i) world \<Rightarrow>
   ('a, 'd, 'i, 'b) dataset \<times> ('a, 'd, 'i) world" where
  "after_batches env 0 self w = (self, w)"
| "after_batches env (Suc n) self w =
     after_batches env n (fst (snd (get_aspect_ratio_bucketed_batch env self w)))
       (snd (snd (get_aspect_ratio_bucketed_batch env self w)))"

section \<open>Concrete runs\<close>

text \<open>
  Stand-ins for the collaborators, to run the operations on concrete manifests. An
  image is its pixel size. The encoder maps a batch of images to a latent distribution
  of four channels at an eighth of the resolution; a distribution is its mean, and a
  sample adds the generator's state to every element. Elements are integers, and
  strings are ASCII, so that \<open>str.lower\<close> is its ASCII contract.
\<close>

text \<open>
  The stand-in for \<open>interpolate\<close>: on a tensor of shape \<open>[n, c, h, w]\<close> with no empty
  plane, output pixel \<open>(i, j)\<close> of a plane reads input pixel
  \<open>(i * h div oh, j * w div ow)\<close>, in exact arithmetic.
\<close>

definition ex_interpolate :: "'a tensor \<Rightarrow> nat \<times> nat \<Rightarrow> error + 'a tensor" where
  "ex_interpolate t sz =
     (case shape t of
        [n, c, h, w] \<Rightarrow>
          (let (oh, ow) = sz in
           if h = 0 \<or> w = 0 \<or> oh = 0 \<or> ow = 0 \<or> length (elems t) \<noteq> n * c * h * w
           then Inl RuntimeError
           else Inr (t\<lparr>shape := [n, c, oh, ow],
                  elems :=
                    concat (map (\<lambda>p. concat (map (\<lambda>i. map (\<lambda>j.
                      elems t ! (p * h * w + (i * h div oh) * w + j * w div ow))
                      [0..<ow]) [0..<oh])) [0..<n * c])\<rparr>))
      | _ \<Rightarrow> Inl ValueError)"

definition ex_env :: "(int, int tensor, nat \<times> nat, nat) env" where
  "ex_env =
     \<lparr>convert = (\<lambda>img mode. img),
      resize_bicubic = (\<lambda>img wh. wh),
      image_size = (\<lambda>img. img),
      luminance_array = (\<lambda>img.
        \<lparr>shape = [snd img, fst img], elems = replicate (snd img * fst img) 1,
         requires_grad = False\<rparr>),
      sample = (\<lambda>d g. (d\<lparr>elems := map (\<lambda>x. x + int g) (elems d)\<rparr>, Suc g)),
      BucketManager = (\<lambda>ars bsz. Inr 0),
      get_batch = (\<lambda>bm. (Inr ([0], (8, 8)), Suc bm)),
      str_lower = ascii_lower,
      interpolate = ex_interpolate\<rparr>"

definition ex_pipe :: "(int, nat \<times> nat) pipe" where
  "ex_pipe =
     \<lparr>preprocess = (\<lambda>img.
        \<lparr>shape = [1, 3, snd img, fst img], elems = replicate (3 * snd img * fst img) 0,
         requires_grad = False\<rparr>)\<rparr>"

definition ex_encoder :: "(int, int tensor) encoder" where
  "ex_encoder =
     \<lparr>scaling_factor = 3,
      encode = (\<lambda>t. case shape t of
                  [n, c, h, w] \<Rightarrow>
                    Inr \<lparr>shape = [n, 4, h div 8, w div 8],
                         elems = replicate (n * 4 * (h div 8) * (w div 8)) 2,
                         requires_grad = True\<rparr>
                | _ \<Rightarrow> Inl ValueError)\<rparr>"

definition ex_row :: "string option \<Rightarrow> string \<Rightarrow> string option \<Rightarrow> row" where
  "ex_row c p m = \<lparr>row_caption = c, row_image_path = Some p, row_mask_path = m\<rparr>"

text \<open>Two rows, no mask column; the second caption is missing.\<close>

definition ex_df :: dataframe where
  "ex_df =
     \<lparr>has_mask_column = False,
      rows = [ex_row (Some ''A CAT sat'') ''a.png'' None, ex_row None ''b.png'' None]\<rparr>"

text \<open>A mask column, and a second row that leaves the field empty.\<close>

definition ex_df_masks :: dataframe where
  "ex_df_masks =
     \<lparr>has_mask_column = True,
      rows = [ex_row (Some ''one'') ''a.png'' (Some ''m.png''), ex_row (Some ''two'') ''b.png'' None]\<rparr>"

text \<open>Five hundred rows, all of the same image.\<close>

definition ex_df_500 :: dataframe where
  "ex_df_500 =
     \<lparr>has_mask_column = False, rows = replicate 500 (ex_row (Some ''x'') ''a.png'' None)\<rparr>"

definition ex_files :: "dataframe \<Rightarrow> (int, int tensor, nat \<times> nat) filesystem" where
  "ex_files df =
     [''data/captions.csv'' \<mapsto> CsvFile df, ''data/a.png'' \<mapsto> ImageFile (640, 480),
      ''data/b.png'' \<mapsto> ImageFile (100, 100), ''data/m.png'' \<mapsto> ImageFile (640, 480)]"

definition ex_world :: "(int, int tensor, nat \<times> nat) world" where
  "ex_world = \<lparr>fs = ex_files ex_df, rng = 7, empty_cache_calls = 0\<rparr>"

definition ex_world_masks :: "(int, int tensor, nat \<times> nat) world" where
  "ex_world_masks = \<lparr>fs = ex_files ex_df_masks, rng = 7, empty_cache_calls = 0\<rparr>"

definition ex_world_500 :: "(int, int tensor, nat \<times> nat) world" where
  "ex_world_500 = \<lparr>fs = ex_files ex_df_500, rng = 7, empty_cache_calls = 0\<rparr>"

text \<open>The first manifest with the second image gone.\<close>

definition ex_world_missing :: "(int, int tensor, nat \<times> nat) world" where
  "ex_world_missing = \<lparr>fs = (ex_files ex_df)(''data/b.png'' := None), rng = 7, empty_cache_calls = 0\<rparr>"

definition ex_args :: "(int, int tensor, nat \<times> nat) init_args" where
  "ex_args =
     \<lparr>arg_data_dir = ''data'', arg_pipe = ex_pipe, arg_vae_encoder = ex_encoder,
      arg_size = (16, 16), arg_aspect_ratio_bucketing = False, arg_train_batch_size = None,
      arg_substitute_caption_map = [(''cat'', ''dog'')]\<rparr>"

definition ex_args_bucketing :: "(int, int tensor, nat \<times> nat) init_args" where
  "ex_args_bucketing =
     ex_args\<lparr>arg_aspect_ratio_bucketing := True, arg_train_batch_size := Some 1\<rparr>"

text \<open>The datasets the constructor returns on these inputs, and the worlds it leaves.\<close>

definition ex_dataset :: "(int, int tensor, nat \<times> nat, nat) dataset" where
  "ex_dataset = projr (fst (init ex_env ex_args ex_world))"

definition ex_world1 :: "(int, int tensor, nat \<times> nat) world" where
  "ex_world1 = snd (init ex_env ex_args ex_world)"

definition ex_dataset_bucketing :: "(int, int tensor, nat \<times> nat, nat) dataset" where
  "ex_dataset_bucketing = projr (fst (init ex_env ex_args_bucketing ex_world))"

definition ex_dataset_500 :: "(int, int tensor, nat \<times> nat, nat) dataset" where
  "ex_dataset_500 = projr (fst (init ex_env ex_args ex_world_500))"

definition ex_world1_500 :: "(int, int tensor, nat \<times> nat) world" where
  "ex_world1_500 = snd (init ex_env ex_args ex_world_500)"

text \<open>
  A second set of stand-ins, in which the rows have different latent distributions: an
  image is its pixel size and a tint, the tint survives resizing, and the encoder
  returns a distribution whose mean is the tint everywhere.
\<close>

definition ex_env_tint :: "(int, int tensor, (nat \<times> nat) \<times> int, nat) env" where
  "ex_env_tint =
     \<lparr>convert = (\<lambda>img mode. img),
      resize_bicubic = (\<lambda>img wh. (wh, snd img)),
      image_size = fst,
      luminance_array = (\<lambda>img.
        \<lparr>shape = [snd (fst img), fst (fst img)],
         elems = replicate (snd (fst img) * fst (fst img)) 1, requires_grad = False\<rparr>),
      sample = (\<lambda>d g. (d\<lparr>elems := map (\<lambda>x. x + int g) (elems d)\<rparr>, Suc g)),
      BucketManager = (\<lambda>ars bsz. Inr 0),
      get_batch = (\<lambda>bm. (Inr ([0], (8, 8)), Suc bm)),
      str_lower = ascii_lower,
      interpolate = ex_interpolate\<rparr>"

definition ex_pipe_tint :: "(int, (nat \<times> nat) \<times> int) pipe" where
  "ex_pipe_tint =
     \<lparr>preprocess = (\<lambda>img.
        \<lparr>shape = [1, 3, snd (fst img), fst (fst img)],
         elems = replicate (3 * snd (fst img) * fst (fst img)) (snd img),
         requires_grad = False\<rparr>)\<rparr>"

definition ex_encoder_tint :: "(int, int tensor) encoder" where
  "ex_encoder_tint =
     \<lparr>scaling_factor = 3,
      encode = (\<lambda>t. case shape t of
                  [n, c, h, w] \<Rightarrow>
                    Inr \<lparr>shape = [n, 4, h div 8, w div 8],
                         elems = replicate (n * 4 * (h div 8) * (w div 8))
                                   (case elems t of [] \<Rightarrow> 0 | x # _ \<Rightarrow> x),
                         requires_grad = True\<rparr>
                | _ \<Rightarrow> Inl ValueError)\<rparr>"

definition ex_world_tint :: "(int, int tensor, (nat \<times> nat) \<times> int) world" where
  "ex_world_tint =
     \<lparr>fs = [''data/captions.csv'' \<mapsto> CsvFile ex_df,
            ''data/a.png'' \<mapsto> ImageFile ((640, 480), 5),
            ''data/b.png'' \<mapsto> ImageFile ((100, 100), 9)],
      rng = 7, empty_cache_calls = 0\<rparr>"

definition ex_args_tint :: "(int, int tensor, (nat \<times> nat) \<times> int) init_args" where
  "ex_args_tint =
     \<lparr>arg_data_dir = ''data'', arg_pipe = ex_pipe_tint, arg_vae_encoder = ex_encoder_tint,
      arg_size = (16, 16), arg_aspect_ratio_bucketing = False, arg_train_batch_size = None,
      arg_substitute_caption_map = [(''cat'', ''dog'')]\<rparr>"

definition ex_dataset_tint :: "(int, int tensor, (nat \<times> nat) \<times> int, nat) dataset" where
  "ex_dataset_tint = projr (fst (init ex_env_tint ex_args_tint ex_world_tint))"

definition ex_world1_tint :: "(int, int tensor, (nat \<times> nat) \<times> int) world" where
  "ex_world1_tint = snd (init ex_env_tint ex_args_tint ex_world_tint)"

text \<open>
  A run outside ASCII. In UTF-8 the capital alpha is \<open>CE 91\<close>, the capital sigma
  \<open>CE A3\<close>, the small alpha \<open>CE B1\<close>, the small sigma \<open>CF 83\<close> and the small sigma
  that ends a word \<open>CF 82\<close>. \<open>str.lower\<close> turns a capital sigma at the end of a word
  into the final small sigma and a capital sigma that stands alone into the small
  sigma. The stand-in is \<open>str.lower\<close> on ASCII strings and on the two strings this run
  lowers: the caption, capital alpha then capital sigma, and the key, capital sigma.
\<close>

definition capital_sigma :: string where
  "capital_sigma = [CHR 0xCE, CHR 0xA3]"

definition capital_alpha_sigma :: string where
  "capital_alpha_sigma = [CHR 0xCE, CHR 0x91] @ capital_sigma"

definition ex_lower_sigma :: "string \<Rightarrow> string" where
  "ex_lower_sigma s =
     (if s = capital_alpha_sigma then [CHR 0xCE, CHR 0xB1, CHR 0xCF, CHR 0x82]
      else if s = capital_sigma then [CHR 0xCF, CHR 0x83]
      else ascii_lower s)"

definition ex_env_sigma :: "(int, int tensor, nat \<times> nat, nat) env" where
  "ex_env_sigma = ex_env\<lparr>str_lower := ex_lower_sigma\<rparr>"

definition ex_df_sigma :: dataframe where
  "ex_df_sigma =
     \<lparr>has_mask_column = False, rows = [ex_row (Some capital_alpha_sigma) ''a.png'' None]\<rparr>"

definition ex_world_sigma :: "(int, int tensor, nat \<times> nat) world" where
  "ex_world_sigma = \<lparr>fs = ex_files ex_df_sigma, rng = 7, empty_cache_calls = 0\<rparr>"

definition ex_args_sigma :: "(int, int tensor, nat \<times> nat) init_args" where
  "ex_args_sigma = ex_args\<lparr>arg_substitute_caption_map := [(capital_sigma, ''x'')]\<rparr>"

definition ex_dataset_sigma :: "(int, int tensor, nat \<times> nat, nat) dataset" where
  "ex_dataset_sigma = projr (fst (init ex_env_sigma ex_args_sigma ex_world_sigma))"

definition ex_world1_sigma :: "(int, int tensor, nat \<times> nat) world" where
  "ex_world1_sigma = snd (init ex_env_sigma ex_args_sigma ex_world_sigma)"

section \<open>Caption substitution, as the specification words it\<close>

text \<open>
  Two characters are the same letter without regard to case when they are equal or are
  the capital and the small form of one letter of the ASCII alphabet; two strings are
  the same without regard to case when they are so character by character. Neither
  notion refers to lowercasing.
\<close>

definition same_letter :: "char \<Rightarrow> char \<Rightarrow> bool" where
  "same_letter a b =
     (a = b
      \<or> (a, b) \<in> set (zip ''ABCDEFGHIJKLMNOPQRSTUVWXYZ'' ''abcdefghijklmnopqrstuvwxyz'')
      \<or> (b, a) \<in> set (zip ''ABCDEFGHIJKLMNOPQRSTUVWXYZ'' ''abcdefghijklmnopqrstuvwxyz''))"

definition same_ignoring_case :: "string \<Rightarrow> string \<Rightarrow> bool" where
  "same_ignoring_case s t = list_all2 same_letter s t"

text \<open>
  One key of the substitution map, matched without regard to case against the raw
  caption: where the caption continues with the key in any mix of cases, the value is
  put; any other character of the caption is put in its small form.
\<close>

fun spec_replace_ignoring_case :: "string \<Rightarrow> string \<Rightarrow> string \<Rightarrow> string" where
  "spec_replace_ignoring_case key val [] = []"
| "spec_replace_ignoring_case key val (c # cs) =
     (if same_ignoring_case (take (length key) (c # cs)) key
      then val @ spec_replace_ignoring_case key val (drop (length key - 1) cs)
      else ascii_lower_char c # spec_replace_ignoring_case key val cs)"

text \<open>
  A substitution map that differs from another only in the case of the letters of its
  keys: the same number of entries, in the same order, with the same values.
\<close>

definition same_map_ignoring_case ::
  "(string \<times> string) list \<Rightarrow> (string \<times> string) list \<Rightarrow> bool" where
  "same_map_ignoring_case m m' =
     list_all2 (\<lambda>kv kv'. same_ignoring_case (fst kv) (fst kv') \<and> snd kv = snd kv') m m'"

section \<open>Facts about the operations\<close>

subsection \<open>File names\<close>

declare str_nat.simps [simp del]

lemma digit_char_inj: "a < 10 \<Longrightarrow> b < 10 \<Longrightarrow> digit_char a = digit_char b \<Longrightarrow> a = b"
proof -
  assume a: "a < 10" and b: "b < 10" and e: "digit_char a = digit_char b"
  have d: "distinct ''0123456789''" by simp
  have "length ''0123456789'' = 10" by simp
  with a b e d show "a = b"
    unfolding digit_char_def by (metis nth_eq_iff_index_eq)
qed

lemma digit_char_not_slash: "d < 10 \<Longrightarrow> digit_char d \<noteq> CHR ''/''"
proof -
  assume "d < 10"
  then have "d < length ''0123456789''" by simp
  then have "''0123456789'' ! d \<in> set ''0123456789''" by (rule nth_mem)
  then show ?thesis unfolding digit_char_def by auto
qed

lemma str_nat_nonempty: "str_nat n \<noteq> []"
  by (subst str_nat.simps) simp

lemma str_nat_nonempty': "[] \<noteq> str_nat n"
  by (rule notI, drule sym, simp add: str_nat_nonempty)

lemma hd_str_nat_not_slash: "hd (str_nat n) \<noteq> CHR ''/''"
proof (induction n rule: str_nat.induct)
  case (1 n)
  show ?case
  proof (cases "n < 10")
    case True
    then show ?thesis by (subst str_nat.simps) (simp add: digit_char_not_slash)
  next
    case False
    with 1 show ?thesis
      by (subst str_nat.simps) (simp add: str_nat_nonempty)
  qed
qed

lemma str_nat_inj: "str_nat m = str_nat n \<Longrightarrow> m = n"
proof (induction m arbitrary: n rule: str_nat.induct)
  case (1 m)
  show ?case
  proof (cases "m < 10")
    case m: True
    show ?thesis
    proof (cases "n < 10")
      case True
      with m "1.prems" show ?thesis
        by (simp add: str_nat.simps[of m] str_nat.simps[of n] digit_char_inj)
    next
      case False
      with m "1.prems" show ?thesis
        by (simp add: str_nat.simps[of m] str_nat.simps[of n] str_nat_nonempty str_nat_nonempty')
    qed
  next
    case m: False
    show ?thesis
    proof (cases "n < 10")
      case True
      with m "1.prems" show ?thesis
        by (simp add: str_nat.simps[of m] str_nat.simps[of n] str_nat_nonempty str_nat_nonempty')
    next
      case False
      with m "1.prems" have e: "str_nat (m div 10) = str_nat (n div 10)"
        and d: "digit_char (m mod 10) = digit_char (n mod 10)"
        by (simp_all add: str_nat.simps[of m] str_nat.simps[of n])
      from "1.IH"[OF m e] have "m div 10 = n div 10" .
      moreover from d have "m mod 10 = n mod 10" by (simp add: digit_char_inj)
      ultimately show ?thesis by (metis div_mult_mod_eq)
    qed
  qed
qed

lemma path_join_str_nat: "path_join a (str_nat n @ sfx) = (if a = [] \<or> last a = CHR ''/'' then a else a @ ''/'') @ str_nat n @ sfx"
  using hd_str_nat_not_slash[of n] str_nat_nonempty[of n]
  by (simp add: path_join_def)

lemma latent_file_nat: "latent_file a (int n) = (if a = [] \<or> last a = CHR ''/'' then a else a @ ''/'') @ str_nat n @ ''_vae_latent.pt''"
  by (simp add: latent_file_def str_int_def path_join_str_nat)

lemma mask_file_nat: "mask_file a (int n) = (if a = [] \<or> last a = CHR ''/'' then a else a @ ''/'') @ str_nat n @ ''_mask.pt''"
  by (simp add: mask_file_def str_int_def path_join_str_nat)

lemma latent_file_inj: "latent_file a (int m) = latent_file a (int n) \<longleftrightarrow> m = n"
  by (auto simp: latent_file_nat dest: str_nat_inj)

lemma mask_file_inj: "mask_file a (int m) = mask_file a (int n) \<longleftrightarrow> m = n"
  by (auto simp: mask_file_nat dest: str_nat_inj)

lemma latent_file_neq_mask_file: "latent_file a (int m) \<noteq> mask_file a (int n)"
proof
  assume "latent_file a (int m) = mask_file a (int n)"
  then have "str_nat m @ ''_vae_latent.pt'' = str_nat n @ ''_mask.pt''"
    by (simp add: latent_file_nat mask_file_nat)
  then have "rev (str_nat m @ ''_vae_latent.pt'') = rev (str_nat n @ ''_mask.pt'')"
    by simp
  then show False by simp
qed

lemma mask_file_neq_latent_file: "mask_file a (int n) \<noteq> latent_file a (int m)"
  using latent_file_neq_mask_file[of a m n] by simp

subsection \<open>The constructor, step by step\<close>

lemma setup_bucketing_Inr:
  assumes "setup_bucketing env args self files = Inr ds"
  shows "\<exists>bm. ds = self\<lparr>bucket_manager := bm\<rparr> \<and> (arg_aspect_ratio_bucketing args \<longleftrightarrow> bm \<noteq> None)"
  using assms
  by (auto simp: setup_bucketing_def split: if_splits option.splits sum.splits)

lemma eager_pass_Inr:
  assumes "eager_pass env self w = (Inr self', w')"
  shows "(do_cache self \<and> (\<exists>ls ms. cache_in_memory env self [0..<length (rows (data self))] ([], []) w = (Inr (ls, ms), w')
            \<and> self' = self\<lparr>vae_latents := Some ls, masks := Some ms\<rparr>))
       \<or> (\<not> do_cache self \<and> cache_on_disk env self [0..<length (rows (data self))] w = (Inr (), w')
            \<and> self' = self\<lparr>vae_latents := None, masks := None\<rparr>)"
  using assms
  by (auto simp: eager_pass_def split: if_splits prod.splits sum.splits)

lemma init_Inr:
  assumes "init env args w = (Inr ds, w1)"
  shows "\<exists>df self w0. read_csv (fs w) (path_join (arg_data_dir args) ''captions.csv'') = Inr df
    \<and> eager_pass env (init_attributes env args df) w = (Inr self, w0)
    \<and> w1 = w0\<lparr>empty_cache_calls := Suc (empty_cache_calls w0)\<rparr>
    \<and> setup_bucketing env args (self\<lparr>vae_encoder := None\<rparr>) (fs w0) = Inr ds"
  using assms
  by (auto simp: init_def release_encoder_def split: sum.splits prod.splits)

lemma init_fields:
  assumes "init env args w = (Inr ds, w1)"
  shows "\<exists>df. read_csv (fs w) (path_join (arg_data_dir args) ''captions.csv'') = Inr df
    \<and> data ds = df
    \<and> data_dir ds = arg_data_dir args
    \<and> captions ds = substitute_captions (str_lower env) (arg_substitute_caption_map args)
                      (map row_caption (rows df))
    \<and> do_cache ds = (length (rows df) < 500)
    \<and> vae_scaling_factor ds = scaling_factor (arg_vae_encoder args)
    \<and> vae_encoder ds = None
    \<and> tokenizer_2 ds = AttrUndefined
    \<and> (arg_aspect_ratio_bucketing args \<longleftrightarrow> bucket_manager ds \<noteq> None)"
proof -
  from init_Inr[OF assms] obtain df self w0 where
    csv: "read_csv (fs w) (path_join (arg_data_dir args) ''captions.csv'') = Inr df"
    and ep: "eager_pass env (init_attributes env args df) w = (Inr self, w0)"
    and sb: "setup_bucketing env args (self\<lparr>vae_encoder := None\<rparr>) (fs w0) = Inr ds"
    by blast
  from setup_bucketing_Inr[OF sb] obtain bm where
    ds: "ds = self\<lparr>vae_encoder := None, bucket_manager := bm\<rparr>"
    and bm: "arg_aspect_ratio_bucketing args \<longleftrightarrow> bm \<noteq> None"
    by auto
  from eager_pass_Inr[OF ep] obtain ls ms where
    self: "self = (init_attributes env args df)\<lparr>vae_latents := ls, masks := ms\<rparr>"
    by auto
  show ?thesis
    using csv bm by (simp add: ds self init_attributes_def)
qed

subsection \<open>The eager pass\<close>

lemma finish_process_world:
  "snd (finish_process env self idx path d w) = w\<lparr>rng := snd (sample env d (rng w))\<rparr>"
  by (simp add: finish_process_def Let_def split: sum.splits)

lemma process_fs: "fs (snd (process env self idx res w)) = fs w"
  by (simp add: process_def finish_process_world split: sum.splits option.splits)

lemma process_empty_cache_calls:
  "empty_cache_calls (snd (process env self idx res w)) = empty_cache_calls w"
  by (simp add: process_def finish_process_world split: sum.splits option.splits)

lemma process_Inr:
  assumes "process env self idx res w = (Inr (d, m, p), w')"
  shows "w' = w\<lparr>rng := snd (sample env d (rng w))\<rparr>"
    and "mask_path self = None \<Longrightarrow> m = squeeze (ones_like (fst (sample env d (rng w))))"
  using assms
  by (auto simp: process_def finish_process_def make_mask_def Let_def
           split: sum.splits option.splits if_splits)

lemma cache_in_memory_Inr:
  "cache_in_memory env self idxs (lats, msks) w = (Inr (lats', msks'), w') \<Longrightarrow>
   \<exists>ds ms. lats' = lats @ ds \<and> msks' = msks @ ms \<and> length ds = length idxs \<and> length ms = length idxs \<and>
     (\<forall>k<length idxs. \<exists>wk wk' m p.
         process env self (int (idxs ! k)) None wk = (Inr (ds ! k, m, p), wk') \<and> ms ! k = detach m \<and> fs wk = fs w)"
proof (induction idxs arbitrary: lats msks w)
  case Nil
  then show ?case by simp
next
  case (Cons i idxs)
  from Cons.prems obtain d m p w1 where
    pr: "process env self (int i) None w = (Inr (d, m, p), w1)"
    and rest: "cache_in_memory env self idxs (lats @ [d], msks @ [detach m]) w1 = (Inr (lats', msks'), w')"
    by (auto split: prod.splits sum.splits)
  have fs1: "fs w1 = fs w" using process_fs[of env self "int i" None w] pr by simp
  from Cons.IH[OF rest] obtain ds ms where
    l: "lats' = (lats @ [d]) @ ds" and m: "msks' = (msks @ [detach m]) @ ms"
    and len: "length ds = length idxs" "length ms = length idxs"
    and all: "\<forall>k<length idxs. \<exists>wk wk' m p.
         process env self (int (idxs ! k)) None wk = (Inr (ds ! k, m, p), wk') \<and> ms ! k = detach m \<and> fs wk = fs w1"
    by blast
  have "\<forall>k<length (i # idxs). \<exists>wk wk' m' p.
         process env self (int ((i # idxs) ! k)) None wk = (Inr ((d # ds) ! k, m', p), wk')
         \<and> (detach m # ms) ! k = detach m' \<and> fs wk = fs w"
  proof (intro allI impI)
    fix k assume k: "k < length (i # idxs)"
    show "\<exists>wk wk' m' p.
         process env self (int ((i # idxs) ! k)) None wk = (Inr ((d # ds) ! k, m', p), wk')
         \<and> (detach m # ms) ! k = detach m' \<and> fs wk = fs w"
    proof (cases k)
      case 0
      with pr show ?thesis by auto
    next
      case (Suc j)
      with k all fs1 show ?thesis by auto
    qed
  qed
  with l m len show ?case
    by (intro exI[of _ "d # ds"] exI[of _ "detach m # ms"]) simp
qed

lemma cache_in_memory_empty_cache_calls:
  "cache_in_memory env self idxs acc w = (r, w') \<Longrightarrow> empty_cache_calls w' = empty_cache_calls w"
proof (induction idxs arbitrary: acc w)
  case Nil
  then show ?case by simp
next
  case (Cons i idxs)
  obtain lats msks where acc: "acc = (lats, msks)" by (cases acc)
  show ?case
  proof (cases "process env self (int i) None w")
    case (Pair res w1)
    have e1: "empty_cache_calls w1 = empty_cache_calls w"
      using process_empty_cache_calls[of env self "int i" None w] Pair by simp
    show ?thesis
    proof (cases res)
      case (Inl e)
      with Pair Cons.prems e1 acc show ?thesis by simp
    next
      case (Inr t)
      obtain d m q where t: "t = (d, m, q)" by (cases t) auto
      from Pair Inr t Cons.prems acc
      have "cache_in_memory env self idxs (lats @ [d], msks @ [detach m]) w1 = (r, w')" by simp
      from Cons.IH[OF this] e1 show ?thesis by simp
    qed
  qed
qed

lemma cache_on_disk_frame:
  "cache_on_disk env self idxs w = (r, w') \<Longrightarrow>
   \<forall>i\<in>set idxs. p \<noteq> latent_file (data_dir self) (int i) \<and> p \<noteq> mask_file (data_dir self) (int i) \<Longrightarrow>
   fs w' p = fs w p"
proof (induction idxs arbitrary: w)
  case Nil
  then show ?case by simp
next
  case (Cons i idxs)
  show ?case
  proof (cases "process env self (int i) None w")
    case (Pair res w1)
    have fs1: "fs w1 = fs w" using process_fs[of env self "int i" None w] Pair by simp
    show ?thesis
    proof (cases res)
      case (Inl e)
      with Pair Cons.prems fs1 show ?thesis by simp
    next
      case (Inr t)
      obtain d m q where t: "t = (d, m, q)" by (cases t) auto
      let ?w2 = "torch_save (Tensor m) (mask_file (data_dir self) (int i))
               (torch_save (Dist d) (latent_file (data_dir self) (int i)) w1)"
      from Pair Inr t Cons.prems(1) have "cache_on_disk env self idxs ?w2 = (r, w')" by simp
      from Cons.IH[OF this] Cons.prems(2) have "fs w' p = fs ?w2 p" by simp
      also from Cons.prems(2) fs1 have "fs ?w2 p = fs w p" by (simp add: torch_save_def)
      finally show ?thesis .
    qed
  qed
qed

lemma cache_on_disk_empty_cache_calls:
  "cache_on_disk env self idxs w = (r, w') \<Longrightarrow> empty_cache_calls w' = empty_cache_calls w"
proof (induction idxs arbitrary: w)
  case Nil
  then show ?case by simp
next
  case (Cons i idxs)
  show ?case
  proof (cases "process env self (int i) None w")
    case (Pair res w1)
    have e1: "empty_cache_calls w1 = empty_cache_calls w"
      using process_empty_cache_calls[of env self "int i" None w] Pair by simp
    show ?thesis
    proof (cases res)
      case (Inl e)
      with Pair Cons.prems e1 show ?thesis by simp
    next
      case (Inr t)
      obtain d m q where t: "t = (d, m, q)" by (cases t) auto
      from Pair Inr t Cons.prems(1) Cons.IH e1 show ?thesis by (simp add: torch_save_def)
    qed
  qed
qed

lemma cache_on_disk_files:
  "cache_on_disk env self idxs w = (Inr u, w') \<Longrightarrow> distinct idxs \<Longrightarrow>
   \<forall>i\<in>set idxs. \<exists>wk wk' d m p.
      process env self (int i) None wk = (Inr (d, m, p), wk') \<and>
      fs w' (latent_file (data_dir self) (int i)) = Some (PickleFile (Dist d)) \<and>
      fs w' (mask_file (data_dir self) (int i)) = Some (PickleFile (Tensor m))"
proof (induction idxs arbitrary: w)
  case Nil
  then show ?case by simp
next
  case (Cons i idxs)
  from Cons.prems(1) obtain d m q w1 where
    pr: "process env self (int i) None w = (Inr (d, m, q), w1)"
    and rest: "cache_on_disk env self idxs
        (torch_save (Tensor m) (mask_file (data_dir self) (int i))
               (torch_save (Dist d) (latent_file (data_dir self) (int i)) w1)) = (Inr u, w')"
    by (auto split: prod.splits sum.splits)
  let ?w2 = "torch_save (Tensor m) (mask_file (data_dir self) (int i))
               (torch_save (Dist d) (latent_file (data_dir self) (int i)) w1)"
  from Cons.prems(2) have ni: "i \<notin> set idxs" and dist: "distinct idxs" by simp_all
  have "\<forall>j\<in>set idxs. latent_file (data_dir self) (int i) \<noteq> latent_file (data_dir self) (int j)
        \<and> latent_file (data_dir self) (int i) \<noteq> mask_file (data_dir self) (int j)"
    using ni by (auto simp: latent_file_inj latent_file_neq_mask_file)
  from cache_on_disk_frame[OF rest this]
  have lf: "fs w' (latent_file (data_dir self) (int i)) = Some (PickleFile (Dist d))"
    by (simp add: torch_save_def latent_file_neq_mask_file)
  have "\<forall>j\<in>set idxs. mask_file (data_dir self) (int i) \<noteq> latent_file (data_dir self) (int j)
        \<and> mask_file (data_dir self) (int i) \<noteq> mask_file (data_dir self) (int j)"
    using ni by (auto simp: mask_file_inj mask_file_neq_latent_file)
  from cache_on_disk_frame[OF rest this]
  have mf: "fs w' (mask_file (data_dir self) (int i)) = Some (PickleFile (Tensor m))"
    by (simp add: torch_save_def)
  from Cons.IH[OF rest dist] pr lf mf show ?case by auto
qed

lemma eager_pass_empty_cache_calls:
  "eager_pass env self w = (r, w') \<Longrightarrow> empty_cache_calls w' = empty_cache_calls w"
proof (cases "do_cache self")
  case True
  assume a: "eager_pass env self w = (r, w')"
  obtain r0 w0 where c: "cache_in_memory env self [0..<length (rows (data self))] ([], []) w = (r0, w0)"
    by (cases "cache_in_memory env self [0..<length (rows (data self))] ([], []) w")
  with a True have "w' = w0" by (auto simp: eager_pass_def split: sum.splits prod.splits)
  with cache_in_memory_empty_cache_calls[OF c] show ?thesis by simp
next
  case False
  assume a: "eager_pass env self w = (r, w')"
  obtain r0 w0 where c: "cache_on_disk env self [0..<length (rows (data self))] w = (r0, w0)"
    by (cases "cache_on_disk env self [0..<length (rows (data self))] w")
  with a False have "w' = w0" by (auto simp: eager_pass_def split: sum.splits prod.splits)
  with cache_on_disk_empty_cache_calls[OF c] show ?thesis by simp
qed

lemma init_on_disk_frame:
  assumes "init env args w = (Inr ds, w1)" and "\<not> do_cache ds"
    and "\<forall>i<len ds. p \<noteq> latent_file (data_dir ds) (int i) \<and> p \<noteq> mask_file (data_dir ds) (int i)"
  shows "fs w1 p = fs w p"
proof -
  from init_Inr[OF assms(1)] obtain df self w0 where
    ep: "eager_pass env (init_attributes env args df) w = (Inr self, w0)"
    and w1: "w1 = w0\<lparr>empty_cache_calls := Suc (empty_cache_calls w0)\<rparr>"
    and sb: "setup_bucketing env args (self\<lparr>vae_encoder := None\<rparr>) (fs w0) = Inr ds"
    by blast
  from setup_bucketing_Inr[OF sb] obtain bm where
    ds: "ds = self\<lparr>vae_encoder := None, bucket_manager := bm\<rparr>" by auto
  let ?self0 = "init_attributes env args df :: ('a, 'b, 'c, 'd) dataset"
  from eager_pass_Inr[OF ep] obtain ls ms where
    self: "self = ?self0\<lparr>vae_latents := ls, masks := ms\<rparr>" by auto
  from assms(2) have "\<not> do_cache ?self0" by (simp add: ds self)
  with eager_pass_Inr[OF ep] have
    cd: "cache_on_disk env ?self0 [0..<length (rows (data ?self0))] w = (Inr (), w0)"
    by auto
  have "\<forall>i\<in>set [0..<length (rows (data ?self0))].
      p \<noteq> latent_file (data_dir ?self0) (int i) \<and> p \<noteq> mask_file (data_dir ?self0) (int i)"
    using assms(3) by (simp add: ds self len_def)
  from cache_on_disk_frame[OF cd this] show ?thesis by (simp add: w1)
qed

text \<open>
  The row the eager pass is at: the pass over the first rows, then the row, then the
  rest, so that what is stored for a row is what \<open>_process\<close> returned in the world the
  pass had reached.
\<close>

lemma cache_in_memory_append:
  "cache_in_memory env self (xs @ ys) acc w =
     (case cache_in_memory env self xs acc w of
        (Inl e, w') \<Rightarrow> (Inl e, w')
      | (Inr acc', w') \<Rightarrow> cache_in_memory env self ys acc' w')"
proof (induction xs arbitrary: acc w)
  case Nil
  show ?case by simp
next
  case (Cons i xs)
  obtain lats msks where acc: "acc = (lats, msks)" by (cases acc)
  show ?case
    by (simp add: acc Cons.IH split: prod.splits sum.splits)
qed

lemma cache_on_disk_append:
  "cache_on_disk env self (xs @ ys) w =
     (case cache_on_disk env self xs w of
        (Inl e, w') \<Rightarrow> (Inl e, w')
      | (Inr u, w') \<Rightarrow> cache_on_disk env self ys w')"
proof (induction xs arbitrary: w)
  case Nil
  show ?case by simp
next
  case (Cons i xs)
  show ?case
    by (simp add: Cons.IH split: prod.splits sum.splits)
qed

lemma upt_split_at: "k < n \<Longrightarrow> [0..<n] = [0..<k] @ k # [Suc k..<n]"
proof -
  assume k: "k < n"
  then have "[0..<n] = [0..<k + (n - k)]" by simp
  also have "\<dots> = [0..<k] @ [k..<k + (n - k)]" by (rule upt_add_eq_append) simp
  also from k have "[k..<k + (n - k)] = k # [Suc k..<n]" by (simp add: upt_conv_Cons)
  finally show ?thesis .
qed

lemma cache_in_memory_row:
  assumes "cache_in_memory env self [0..<n] ([], []) w = (Inr (ls, ms), w')" and "k < n"
  shows "\<exists>m p wk'.
      process env self (int k) None (snd (cache_in_memory env self [0..<k] ([], []) w))
        = (Inr (ls ! k, m, p), wk')
    \<and> ms ! k = detach m \<and> length ls = n \<and> length ms = n"
proof -
  obtain r0 wk where pre: "cache_in_memory env self [0..<k] ([], []) w = (r0, wk)"
    by (cases "cache_in_memory env self [0..<k] ([], []) w")
  from assms have whole: "cache_in_memory env self ([0..<k] @ k # [Suc k..<n]) ([], []) w
      = (Inr (ls, ms), w')"
    by (simp add: upt_split_at[symmetric])
  from whole pre obtain lk mk where r0: "r0 = Inr (lk, mk)"
    and rest: "cache_in_memory env self (k # [Suc k..<n]) (lk, mk) wk = (Inr (ls, ms), w')"
    by (cases r0) (auto simp: cache_in_memory_append)
  from cache_in_memory_Inr[OF pre[unfolded r0]] have lenk: "length lk = k" "length mk = k"
    by auto
  from rest obtain d m p wk' where
    pr: "process env self (int k) None wk = (Inr (d, m, p), wk')"
    and tail: "cache_in_memory env self [Suc k..<n] (lk @ [d], mk @ [detach m]) wk'
      = (Inr (ls, ms), w')"
    by (auto split: prod.splits sum.splits)
  from cache_in_memory_Inr[OF tail] obtain ds' ms' where
    ls: "ls = (lk @ [d]) @ ds'" and ms: "ms = (mk @ [detach m]) @ ms'"
    and len': "length ds' = length [Suc k..<n]" "length ms' = length [Suc k..<n]"
    by blast
  from ls lenk have "ls ! k = d" by (simp add: nth_append)
  moreover from ms lenk have "ms ! k = detach m" by (simp add: nth_append)
  moreover from ls ms lenk len' assms(2) have "length ls = n" "length ms = n" by simp_all
  ultimately show ?thesis using pr pre by auto
qed

lemma cache_on_disk_row:
  assumes "cache_on_disk env self [0..<n] w = (Inr u, w')" and "k < n"
  shows "\<exists>d m p wk'.
      process env self (int k) None (snd (cache_on_disk env self [0..<k] w))
        = (Inr (d, m, p), wk')
    \<and> fs w' (latent_file (data_dir self) (int k)) = Some (PickleFile (Dist d))
    \<and> fs w' (mask_file (data_dir self) (int k)) = Some (PickleFile (Tensor m))"
proof -
  obtain r0 wk where pre: "cache_on_disk env self [0..<k] w = (r0, wk)"
    by (cases "cache_on_disk env self [0..<k] w")
  from assms have whole: "cache_on_disk env self ([0..<k] @ k # [Suc k..<n]) w = (Inr u, w')"
    by (simp add: upt_split_at[symmetric])
  from whole pre have rest: "cache_on_disk env self (k # [Suc k..<n]) wk = (Inr u, w')"
    by (cases r0) (auto simp: cache_on_disk_append)
  then obtain d m p wk' where
    pr: "process env self (int k) None wk = (Inr (d, m, p), wk')"
    and tail: "cache_on_disk env self [Suc k..<n]
        (torch_save (Tensor m) (mask_file (data_dir self) (int k))
               (torch_save (Dist d) (latent_file (data_dir self) (int k)) wk')) = (Inr u, w')"
    by (auto split: prod.splits sum.splits)
  have "\<forall>j\<in>set [Suc k..<n]. latent_file (data_dir self) (int k) \<noteq> latent_file (data_dir self) (int j)
        \<and> latent_file (data_dir self) (int k) \<noteq> mask_file (data_dir self) (int j)"
    by (auto simp: latent_file_inj latent_file_neq_mask_file)
  from cache_on_disk_frame[OF tail this]
  have lf: "fs w' (latent_file (data_dir self) (int k)) = Some (PickleFile (Dist d))"
    by (simp add: torch_save_def latent_file_neq_mask_file)
  have "\<forall>j\<in>set [Suc k..<n]. mask_file (data_dir self) (int k) \<noteq> latent_file (data_dir self) (int j)
        \<and> mask_file (data_dir self) (int k) \<noteq> mask_file (data_dir self) (int j)"
    by (auto simp: mask_file_inj mask_file_neq_latent_file)
  from cache_on_disk_frame[OF tail this]
  have mf: "fs w' (mask_file (data_dir self) (int k)) = Some (PickleFile (Tensor m))"
    by (simp add: torch_save_def)
  from pr pre lf mf show ?thesis by auto
qed

subsection \<open>Captions\<close>

lemma fold_series_str_replace:
  "fold (\<lambda>(key, value) caps. series_str_replace caps (f key) value) m col =
   map (map_option (fold (\<lambda>(key, value) s. str_replace s (f key) value) m)) col"
proof (induction m arbitrary: col)
  case Nil
  show ?case by (simp add: option.map_ident)
next
  case (Cons kv m)
  obtain k v where kv: "kv = (k, v)" by (cases kv)
  have "fold (\<lambda>(key, value) caps. series_str_replace caps (f key) value) (kv # m) col =
        fold (\<lambda>(key, value) caps. series_str_replace caps (f key) value) m
          (series_str_replace col (f k) v)"
    by (simp add: kv)
  also have "\<dots> = map (map_option (fold (\<lambda>(key, value) s. str_replace s (f key) value) m))
          (series_str_replace col (f k) v)"
    by (rule Cons.IH)
  also have "\<dots> = map (map_option (fold (\<lambda>(key, value) s. str_replace s (f key) value) (kv # m))) col"
    by (simp add: series_str_replace_def kv option.map_comp comp_def)
  finally show ?case .
qed

lemma length_substitute_captions: "length (substitute_captions f m col) = length col"
  by (simp add: substitute_captions_def series_fillna_def fold_series_str_replace series_str_lower_def)

lemma nth_substitute_captions:
  "k < length col \<Longrightarrow>
   substitute_captions f m col ! k =
     (case col ! k of
        None \<Rightarrow> []
      | Some c \<Rightarrow> fold (\<lambda>(key, value) s. str_replace s (f key) value) m (f c))"
  by (simp add: substitute_captions_def series_fillna_def fold_series_str_replace
        series_str_lower_def split: option.splits)

text \<open>The same letter without regard to case, and the ASCII contract of lowercasing.\<close>

lemma same_letter_iff: "same_letter a b \<longleftrightarrow> ascii_lower_char a = ascii_lower_char b"
proof -
  define Z where "Z = zip ''ABCDEFGHIJKLMNOPQRSTUVWXYZ'' ''abcdefghijklmnopqrstuvwxyz''"
  have dU: "distinct (map fst Z)" by (simp add: Z_def)
  have dL: "distinct (map fst (map prod.swap Z))" by (simp add: Z_def)
  have disj: "snd ` set Z \<inter> fst ` set Z = {}" by (simp add: Z_def)
  have A: "map_of Z x = Some l \<longleftrightarrow> (x, l) \<in> set Z" for x l
    using dU by simp
  have B: "map_of Z l = None" if "(x, l) \<in> set Z" for x l
  proof -
    from that have "l \<in> snd ` set Z" by force
    with disj have "l \<notin> fst ` set Z" by blast
    then show ?thesis by (simp add: map_of_eq_None_iff)
  qed
  have C: "x = y" if "(x, l) \<in> set Z" "(y, l) \<in> set Z" for x y l
  proof -
    from that have "(l, x) \<in> set (map prod.swap Z)" "(l, y) \<in> set (map prod.swap Z)"
      by force+
    with dL show ?thesis by (rule eq_key_imp_eq_value)
  qed
  have low: "ascii_lower_char x = (case map_of Z x of None \<Rightarrow> x | Some l \<Rightarrow> l)" for x
    by (simp add: ascii_lower_char_def Z_def)
  have sl: "same_letter x y \<longleftrightarrow> x = y \<or> (x, y) \<in> set Z \<or> (y, x) \<in> set Z" for x y
    by (simp add: same_letter_def Z_def)
  show ?thesis
  proof
    assume "same_letter a b"
    with sl consider "a = b" | "(a, b) \<in> set Z" | "(b, a) \<in> set Z" by blast
    then show "ascii_lower_char a = ascii_lower_char b"
    proof cases
      case 1
      then show ?thesis by simp
    next
      case 2
      with A[of a b] B[OF 2] show ?thesis by (simp add: low)
    next
      case 3
      with A[of b a] B[OF 3] show ?thesis by (simp add: low)
    qed
  next
    assume e: "ascii_lower_char a = ascii_lower_char b"
    show "same_letter a b"
    proof (cases "map_of Z a")
      case None
      show ?thesis
      proof (cases "map_of Z b")
        case N: None
        with None e show ?thesis by (simp add: low sl)
      next
        case (Some lb)
        with None e A[of b lb] show ?thesis by (simp add: low sl)
      qed
    next
      case (Some la)
      show ?thesis
      proof (cases "map_of Z b")
        case None
        with Some e A[of a la] show ?thesis by (simp add: low sl)
      next
        case S: (Some lb)
        with Some e A[of a la] A[of b lb] have "(a, la) \<in> set Z" "(b, la) \<in> set Z"
          by (simp_all add: low)
        then have "a = b" by (rule C)
        then show ?thesis by (simp add: sl)
      qed
    qed
  qed
qed

lemma same_ignoring_case_iff: "same_ignoring_case s t \<longleftrightarrow> ascii_lower s = ascii_lower t"
proof -
  have "ascii_lower s = ascii_lower t \<longleftrightarrow> list_all2 (=) (map ascii_lower_char s) (map ascii_lower_char t)"
    by (simp add: ascii_lower_def list_all2_eq)
  also have "\<dots> \<longleftrightarrow> list_all2 (\<lambda>a b. ascii_lower_char a = ascii_lower_char b) s t"
    by (simp add: list_all2_map1 list_all2_map2)
  finally show ?thesis
    by (simp add: same_ignoring_case_def same_letter_iff[abs_def])
qed

lemma length_ascii_lower: "length (ascii_lower s) = length s"
  by (simp add: ascii_lower_def)

lemma drop_ascii_lower: "drop n (ascii_lower s) = ascii_lower (drop n s)"
  by (simp add: ascii_lower_def drop_map)

lemma take_ascii_lower: "take n (ascii_lower s) = ascii_lower (take n s)"
  by (simp add: ascii_lower_def take_map)

lemma replace_scan_ignoring_case:
  "replace_scan (ascii_lower key) v (ascii_lower s) = spec_replace_ignoring_case key v s"
proof (induction key v s rule: spec_replace_ignoring_case.induct)
  case (1 key v)
  show ?case by (simp add: ascii_lower_def)
next
  case (2 key v c cs)
  have l: "ascii_lower (c # cs) = ascii_lower_char c # ascii_lower cs"
    by (simp add: ascii_lower_def)
  have t: "take (length key) (ascii_lower_char c # ascii_lower cs)
             = ascii_lower (take (length key) (c # cs))"
    using take_ascii_lower[of "length key" "c # cs"] by (simp only: l)
  show ?case
  proof (cases "same_ignoring_case (take (length key) (c # cs)) key")
    case True
    then have "ascii_lower (take (length key) (c # cs)) = ascii_lower key"
      by (simp add: same_ignoring_case_iff)
    with 2 True show ?thesis
      by (simp add: l length_ascii_lower t drop_ascii_lower)
  next
    case False
    then have "ascii_lower (take (length key) (c # cs)) \<noteq> ascii_lower key"
      by (simp add: same_ignoring_case_iff)
    with 2 False show ?thesis
      by (simp add: l length_ascii_lower t)
  qed
qed

lemma str_replace_ignoring_case:
  "key \<noteq> [] \<Longrightarrow>
   str_replace (ascii_lower s) (ascii_lower key) v = spec_replace_ignoring_case key v s"
  by (simp add: str_replace_def replace_scan_ignoring_case) (simp add: ascii_lower_def)

lemma same_map_ignoring_case_fold:
  "same_map_ignoring_case m m' \<Longrightarrow>
   fold (\<lambda>(key, value) s. str_replace s (ascii_lower key) value) m x =
   fold (\<lambda>(key, value) s. str_replace s (ascii_lower key) value) m' x"
  unfolding same_map_ignoring_case_def
proof (induction m m' arbitrary: x rule: list_all2_induct)
  case Nil
  show ?case by simp
next
  case (Cons kv m kv' m')
  obtain k v where kv: "kv = (k, v)" by (cases kv)
  obtain k' v' where kv': "kv' = (k', v')" by (cases kv')
  from Cons.hyps(1) kv kv' have "ascii_lower k = ascii_lower k'" and "v = v'"
    by (simp_all add: same_ignoring_case_iff)
  with Cons.IH show ?case by (simp add: kv kv')
qed

lemma fold_str_replace_ascii:
  assumes "\<And>s. ascii s \<Longrightarrow> f s = ascii_lower s"
    and "list_all (\<lambda>kv. ascii (fst kv)) m"
  shows "fold (\<lambda>(key, value) s. str_replace s (f key) value) m x =
         fold (\<lambda>(key, value) s. str_replace s (ascii_lower key) value) m x"
  using assms(2)
proof (induction m arbitrary: x)
  case Nil
  show ?case by simp
next
  case (Cons kv m)
  obtain key v where kv: "kv = (key, v)" by (cases kv)
  from Cons.prems have "ascii key" and rest: "list_all (\<lambda>kv. ascii (fst kv)) m"
    by (simp_all add: kv)
  with assms(1) have "f key = ascii_lower key" by blast
  with Cons.IH[OF rest] show ?case by (simp add: kv)
qed

lemma substitute_captions_single:
  "substitute_captions f m [Some c] =
     [fold (\<lambda>(key, value) s. str_replace s (f key) value) m (f c)]"
  by (simp add: substitute_captions_def series_fillna_def fold_series_str_replace
        series_str_lower_def)

subsection \<open>Reading after construction\<close>

lemma detach_detach: "detach (detach t) = detach t"
  by (simp add: detach_def)

lemma prod_list_squeeze: "prod_list (filter (\<lambda>n. n \<noteq> Suc 0) xs) = prod_list xs"
  by (induction xs) auto

lemma list_get_valid: "k < length xs \<Longrightarrow> list_get xs (int k) = Inr (xs ! k)"
  by (simp add: list_get_def)

lemma series_get_valid: "k < length xs \<Longrightarrow> series_get xs (int k) = Inr (xs ! k)"
  by (simp add: series_get_def)

lemma getitem_in_memory:
  assumes "do_cache ds" "vae_latents ds = Some ls" "masks ds = Some ms"
    and "k < length ls" "k < length ms" "k < length (captions ds)"
  shows "getitem env ds (int k) r w =
    (Inr (captions ds ! k,
          detach (squeeze (mul_scalar (fst (sample env (ls ! k) (rng w))) (vae_scaling_factor ds))),
          detach (ms ! k)),
     w\<lparr>rng := snd (sample env (ls ! k) (rng w))\<rparr>)"
  using assms
  by (simp add: getitem_def list_get_valid series_get_valid sample_scaled_def)

lemma getitem_on_disk:
  assumes "\<not> do_cache ds"
    and "fs w (latent_file (data_dir ds) (int k)) = Some (PickleFile (Dist d))"
    and "fs w (mask_file (data_dir ds) (int k)) = Some (PickleFile (Tensor m))"
    and "k < length (captions ds)"
  shows "getitem env ds (int k) r w =
    (Inr (captions ds ! k,
          detach (squeeze (mul_scalar (fst (sample env d (rng w))) (vae_scaling_factor ds))),
          detach m),
     w\<lparr>rng := snd (sample env d (rng w))\<rparr>)"
  using assms
  by (simp add: getitem_def torch_load_def series_get_valid sample_scaled_def)

lemma getitem_after_init:
  assumes init: "init env args w = (Inr ds, w1)"
    and k: "k < len ds"
    and fs2: "fs w2 = fs w1"
  shows "\<exists>df d m p wk wk'.
      read_csv (fs w) (path_join (arg_data_dir args) ''captions.csv'') = Inr df
    \<and> process env (init_attributes env args df) (int k) None wk = (Inr (d, m, p), wk')
    \<and> getitem env ds (int k) r w2 =
        (Inr (captions ds ! k,
              detach (squeeze (mul_scalar (fst (sample env d (rng w2))) (vae_scaling_factor ds))),
              detach m),
         w2\<lparr>rng := snd (sample env d (rng w2))\<rparr>)"
proof -
  from init_Inr[OF init] obtain df self w0 where
    csv: "read_csv (fs w) (path_join (arg_data_dir args) ''captions.csv'') = Inr df"
    and ep: "eager_pass env (init_attributes env args df) w = (Inr self, w0)"
    and w1: "w1 = w0\<lparr>empty_cache_calls := Suc (empty_cache_calls w0)\<rparr>"
    and sb: "setup_bucketing env args (self\<lparr>vae_encoder := None\<rparr>) (fs w0) = Inr ds"
    by blast
  from setup_bucketing_Inr[OF sb] obtain bm where
    ds: "ds = self\<lparr>vae_encoder := None, bucket_manager := bm\<rparr>" by auto
  let ?self0 = "init_attributes env args df :: ('a, 'b, 'c, 'd) dataset"
  have n: "length (rows (data ?self0)) = length (rows df)" by (simp add: init_attributes_def)
  have caps0: "length (captions ?self0) = length (rows df)"
    by (simp add: init_attributes_def length_substitute_captions)
  from eager_pass_Inr[OF ep] show ?thesis
  proof (elim disjE conjE exE)
    fix ls ms
    assume dc: "do_cache ?self0"
      and cm: "cache_in_memory env ?self0 [0..<length (rows (data ?self0))] ([], []) w = (Inr (ls, ms), w0)"
      and self: "self = ?self0\<lparr>vae_latents := Some ls, masks := Some ms\<rparr>"
    from k have kn: "k < length (rows df)" by (simp add: len_def ds self init_attributes_def)
    from cache_in_memory_Inr[OF cm] obtain ls0 ms0 where
      ls0: "ls = [] @ ls0" and ms0: "ms = [] @ ms0"
      and len0: "length ls0 = length [0..<length (rows (data ?self0))]"
        "length ms0 = length [0..<length (rows (data ?self0))]"
      and all: "\<forall>j<length [0..<length (rows (data ?self0))]. \<exists>wk wk' m p.
         process env ?self0 (int ([0..<length (rows (data ?self0))] ! j)) None wk
           = (Inr (ls0 ! j, m, p), wk')
         \<and> ms0 ! j = detach m \<and> fs wk = fs w"
      by blast
    from len0 ls0 ms0 n have len: "length ls = length (rows df)" "length ms = length (rows df)"
      by simp_all
    from all kn n obtain wk wk' m p where
      "process env ?self0 (int ([0..<length (rows (data ?self0))] ! k)) None wk
           = (Inr (ls0 ! k, m, p), wk')" and "ms0 ! k = detach m"
      by (metis length_upt minus_nat.diff_0)
    with kn n ls0 ms0 have
      pr: "process env ?self0 (int k) None wk = (Inr (ls ! k, m, p), wk')"
      and mk: "ms ! k = detach m"
      by simp_all
    have "getitem env ds (int k) r w2 =
        (Inr (captions ds ! k,
              detach (squeeze (mul_scalar (fst (sample env (ls ! k) (rng w2))) (vae_scaling_factor ds))),
              detach (ms ! k)),
         w2\<lparr>rng := snd (sample env (ls ! k) (rng w2))\<rparr>)"
      using dc len kn caps0
      by (intro getitem_in_memory) (simp_all add: ds self)
    then have "getitem env ds (int k) r w2 =
        (Inr (captions ds ! k,
              detach (squeeze (mul_scalar (fst (sample env (ls ! k) (rng w2))) (vae_scaling_factor ds))),
              detach m),
         w2\<lparr>rng := snd (sample env (ls ! k) (rng w2))\<rparr>)"
      by (simp add: mk detach_detach)
    with csv pr show ?thesis by blast
  next
    assume dc: "\<not> do_cache ?self0"
      and cd: "cache_on_disk env ?self0 [0..<length (rows (data ?self0))] w = (Inr (), w0)"
      and self: "self = ?self0\<lparr>vae_latents := None, masks := None\<rparr>"
    from k have kn: "k < length (rows df)" by (simp add: len_def ds self init_attributes_def)
    have "k \<in> set [0..<length (rows (data ?self0))]" using kn n by simp
    with cache_on_disk_files[OF cd] have "\<exists>wk wk' d m p.
      process env ?self0 (int k) None wk = (Inr (d, m, p), wk') \<and>
      fs w0 (latent_file (data_dir ?self0) (int k)) = Some (PickleFile (Dist d)) \<and>
      fs w0 (mask_file (data_dir ?self0) (int k)) = Some (PickleFile (Tensor m))"
      by (meson distinct_upt)
    then obtain wk wk' d m p where
      pr: "process env ?self0 (int k) None wk = (Inr (d, m, p), wk')"
      and lf: "fs w0 (latent_file (data_dir ?self0) (int k)) = Some (PickleFile (Dist d))"
      and mf: "fs w0 (mask_file (data_dir ?self0) (int k)) = Some (PickleFile (Tensor m))"
      by blast
    have "getitem env ds (int k) r w2 =
        (Inr (captions ds ! k,
              detach (squeeze (mul_scalar (fst (sample env d (rng w2))) (vae_scaling_factor ds))),
              detach m),
         w2\<lparr>rng := snd (sample env d (rng w2))\<rparr>)"
      using dc lf mf kn caps0 fs2
      by (intro getitem_on_disk) (simp_all add: ds self w1)
    with csv pr show ?thesis by blast
  qed
qed

lemma init_cache_lengths:
  assumes "init env args w = (Inr ds, w1)"
  shows "length (captions ds) = len ds"
    and "do_cache ds \<Longrightarrow> \<exists>ls. vae_latents ds = Some ls \<and> length ls = len ds"
proof -
  from init_Inr[OF assms] obtain df self w0 where
    ep: "eager_pass env (init_attributes env args df) w = (Inr self, w0)"
    and sb: "setup_bucketing env args (self\<lparr>vae_encoder := None\<rparr>) (fs w0) = Inr ds"
    by blast
  from setup_bucketing_Inr[OF sb] obtain bm where
    ds: "ds = self\<lparr>vae_encoder := None, bucket_manager := bm\<rparr>" by auto
  let ?self0 = "init_attributes env args df :: ('a, 'b, 'c, 'd) dataset"
  have n: "length (rows (data ?self0)) = length (rows df)" by (simp add: init_attributes_def)
  have caps0: "length (captions ?self0) = length (rows df)"
    by (simp add: init_attributes_def length_substitute_captions)
  from eager_pass_Inr[OF ep] obtain ls ms where
    self: "self = ?self0\<lparr>vae_latents := ls, masks := ms\<rparr>" by auto
  show "length (captions ds) = len ds"
    by (simp add: ds self caps0 len_def n)
  show "\<exists>ls. vae_latents ds = Some ls \<and> length ls = len ds" if dc: "do_cache ds"
  proof -
    from dc have "do_cache ?self0" by (simp add: ds self)
    with eager_pass_Inr[OF ep] obtain ls' ms' where
      cm: "cache_in_memory env ?self0 [0..<length (rows (data ?self0))] ([], []) w = (Inr (ls', ms'), w0)"
      and self': "self = ?self0\<lparr>vae_latents := Some ls', masks := Some ms'\<rparr>"
      by auto
    from cache_in_memory_Inr[OF cm] have "length ls' = length (rows df)" using n by auto
    then show ?thesis by (simp add: ds self' len_def n)
  qed
qed

lemma getitem_past_end_in_memory:
  assumes "do_cache ds" and "vae_latents ds = Some ls"
  shows "getitem env ds (int (length ls)) r w = (Inl IndexError, w)"
  using assms by (simp add: getitem_def list_get_def)

lemma getitem_missing_artifact:
  assumes "\<not> do_cache ds" and "fs w (latent_file (data_dir ds) idx) = None"
  shows "getitem env ds idx r w = (Inl (FileNotFoundError (latent_file (data_dir ds) idx)), w)"
  using assms by (simp add: getitem_def torch_load_def)

lemma getitem_past_end_on_disk:
  assumes "\<not> do_cache ds"
  shows "\<exists>e w'. getitem env ds (int (length (captions ds))) r w = (Inl e, w')
     \<and> (e = KeyError (int (length (captions ds))) \<or> e = AttributeError ''sample''
         \<or> (\<exists>p. e = FileNotFoundError p) \<or> (\<exists>p. e = UnpicklingError p))"
  using assms
  by (auto simp: getitem_def torch_load_def series_get_def sample_scaled_def
           split: option.splits disk_file.splits pyobj.splits)

lemma getitem_resolution_unused:
  "getitem env self idx (Some resolution) w = getitem env self idx None w"
  by (simp add: getitem_def)

subsection \<open>Bucketed batches\<close>

lemma get_batch_dataset:
  "\<exists>bm. fst (snd (get_aspect_ratio_bucketed_batch env ds w)) = ds\<lparr>bucket_manager := bm\<rparr>"
proof (cases "bucket_manager ds")
  case None
  then have "fst (snd (get_aspect_ratio_bucketed_batch env ds w)) = ds\<lparr>bucket_manager := None\<rparr>"
    by (simp add: get_aspect_ratio_bucketed_batch_def)
  then show ?thesis by blast
next
  case (Some bm)
  then show ?thesis
    by (auto simp: get_aspect_ratio_bucketed_batch_def split: prod.splits sum.splits)
qed

lemma batch_tokenizer_2:
  "tokenizer_2 (fst (snd (get_aspect_ratio_bucketed_batch env ds w))) = tokenizer_2 ds"
proof -
  from get_batch_dataset[of env ds w] obtain bm where
    "fst (snd (get_aspect_ratio_bucketed_batch env ds w)) = ds\<lparr>bucket_manager := bm\<rparr>" by blast
  then show ?thesis by simp
qed

lemma after_batches_tokenizer_2:
  "tokenizer_2 (fst (after_batches env n ds w)) = tokenizer_2 ds"
  by (induction n arbitrary: ds w) (simp_all add: batch_tokenizer_2)

lemma torch_cat_Nil: "torch_cat [] = Inl RuntimeError"
  by (simp add: torch_cat_def)

lemma batch_raises_without_tokenizer_2:
  assumes "tokenizer_2 ds = AttrUndefined"
  shows "\<exists>e. fst (get_aspect_ratio_bucketed_batch env ds w) = Inl e"
proof (cases "bucket_manager ds")
  case None
  then show ?thesis by (simp add: get_aspect_ratio_bucketed_batch_def)
next
  case (Some bm)
  obtain res bm' where gb: "get_batch env bm = (res, bm')" by (cases "get_batch env bm")
  show ?thesis
  proof (cases res)
    case (Inl e)
    with Some gb show ?thesis by (simp add: get_aspect_ratio_bucketed_batch_def)
  next
    case (Inr b)
    obtain indices resolution where b: "b = (indices, resolution)" by (cases b)
    show ?thesis
    proof (cases indices)
      case Nil
      with Some gb Inr b show ?thesis
        by (simp add: get_aspect_ratio_bucketed_batch_def stack_batch_def torch_cat_Nil)
    next
      case (Cons idx rest)
      with Some gb Inr b assms show ?thesis
        by (simp add: get_aspect_ratio_bucketed_batch_def)
    qed
  qed
qed

lemma batch_attribute_error:
  assumes "tokenizer_2 ds = AttrUndefined" and "bucket_manager ds = Some bm"
    and "get_batch env bm = (Inr (idx # rest, res), bm')"
  shows "get_aspect_ratio_bucketed_batch env ds w =
           (Inl (AttributeError ''tokenizer_2''), ds\<lparr>bucket_manager := Some bm'\<rparr>, w)"
  using assms by (simp add: get_aspect_ratio_bucketed_batch_def)

lemma sum_list_const_one: "sum_list (map (\<lambda>u. Suc 0) ts) = length ts"
  by (induction ts) simp_all

lemma torch_cat_unsqueezed:
  assumes "ts \<noteq> []" and "\<forall>t\<in>set ts. shape t = shape (hd ts)"
  shows "torch_cat (map unsqueeze0 ts) =
           Inr \<lparr>shape = length ts # shape (hd ts), elems = concat (map elems ts),
                requires_grad = list_ex requires_grad ts\<rparr>"
proof -
  from assms(1) obtain t rest where ts: "ts = t # rest" by (cases ts) auto
  from assms(2) ts have all: "\<forall>u\<in>set rest. shape u = shape t" by simp
  have e: "concat (map (elems \<circ> unsqueeze0) rest) = concat (map elems rest)"
    by (simp add: unsqueeze0_def comp_def)
  have g: "list_ex (requires_grad \<circ> unsqueeze0) rest = list_ex requires_grad rest"
    by (simp add: unsqueeze0_def comp_def)
  have s: "sum_list (map ((\<lambda>u. hd (shape u)) \<circ> unsqueeze0) rest) = length rest"
    by (simp add: unsqueeze0_def comp_def sum_list_const_one)
  have a: "list_all (\<lambda>u. shape u \<noteq> [] \<and> tl (shape u) = shape t) (map unsqueeze0 rest)"
    using all by (simp add: list_all_iff unsqueeze0_def)
  show ?thesis
    using a e g s
    by (simp add: ts torch_cat_def list_ex_iff list_all_iff)
       (simp add: unsqueeze0_def comp_def)
qed

subsection \<open>The concrete runs\<close>

lemma ex_init: "init ex_env ex_args ex_world = (Inr ex_dataset, ex_world1)"
proof -
  have "\<not> isl (fst (init ex_env ex_args ex_world))" by code_simp
  then have "fst (init ex_env ex_args ex_world) = Inr ex_dataset"
    by (simp add: ex_dataset_def)
  then show ?thesis by (simp add: ex_world1_def prod_eq_iff)
qed

lemma ex_args_no_bucketing: "\<not> arg_aspect_ratio_bucketing ex_args"
  by (simp add: ex_args_def)

lemma ex_csv: "read_csv (fs ex_world) (path_join (arg_data_dir ex_args) ''captions.csv'') = Inr ex_df"
  by (simp add: read_csv_def ex_world_def ex_files_def path_join_def ex_args_def)

lemma ex_len: "len ex_dataset = 2"
  using init_fields[OF ex_init] ex_csv by (auto simp: len_def ex_df_def)

lemma ex_caption:
  "fold (\<lambda>(key, value) s. str_replace s (ascii_lower key) value) [(''cat'', ''dog'')]
     (ascii_lower ''A CAT sat'') = ''a dog sat''"
  by (simp add: str_replace_def ascii_lower_def ascii_lower_char_def)

lemma ex_sample_shape:
  "\<forall>d g g'. shape (fst (sample ex_env d g)) = shape (fst (sample ex_env d g'))"
  by (simp add: ex_env_def)

lemma ex_no_mask_column: "\<not> has_mask_column ex_df"
  by (simp add: ex_df_def)

lemma ex_csv_missing:
  "read_csv (fs ex_world_missing) (path_join (arg_data_dir ex_args) ''captions.csv'') = Inr ex_df"
  by (simp add: read_csv_def ex_world_missing_def ex_files_def path_join_def ex_args_def)

lemma ex_eager_pass:
  "eager_pass ex_env (init_attributes ex_env ex_args ex_df) ex_world =
     (Inr (projr (fst (eager_pass ex_env (init_attributes ex_env ex_args ex_df) ex_world))),
      snd (eager_pass ex_env (init_attributes ex_env ex_args ex_df) ex_world))"
proof -
  have "\<not> isl (fst (eager_pass ex_env (init_attributes ex_env ex_args ex_df) ex_world))" by code_simp
  then show ?thesis by (simp add: prod_eq_iff)
qed

lemma ex_eager_pass_missing:
  "eager_pass ex_env (init_attributes ex_env ex_args ex_df) ex_world_missing =
     (Inl (FileNotFoundError ''data/b.png''),
      snd (eager_pass ex_env (init_attributes ex_env ex_args ex_df) ex_world_missing))"
proof -
  have "isl (fst (eager_pass ex_env (init_attributes ex_env ex_args ex_df) ex_world_missing))"
    and "projl (fst (eager_pass ex_env (init_attributes ex_env ex_args ex_df) ex_world_missing))
           = FileNotFoundError ''data/b.png''"
    by code_simp+
  then have "fst (eager_pass ex_env (init_attributes ex_env ex_args ex_df) ex_world_missing)
           = Inl (FileNotFoundError ''data/b.png'')"
    by (metis sum.collapse(1))
  then show ?thesis by (simp add: prod_eq_iff)
qed

lemma ex_init_bucketing:
  "init ex_env ex_args_bucketing ex_world
     = (Inr ex_dataset_bucketing, snd (init ex_env ex_args_bucketing ex_world))"
proof -
  have "\<not> isl (fst (init ex_env ex_args_bucketing ex_world))" by code_simp
  then have "fst (init ex_env ex_args_bucketing ex_world) = Inr ex_dataset_bucketing"
    by (simp add: ex_dataset_bucketing_def)
  then show ?thesis by (simp add: prod_eq_iff)
qed

lemma ex_bucket_manager: "bucket_manager ex_dataset_bucketing = Some 0"
  by code_simp

lemma ex_get_batch: "get_batch ex_env 0 = (Inr ([0], (8, 8)), 1)"
  by (simp add: ex_env_def)

text \<open>The run in which the rows have different latents.\<close>

lemma ex_init_tint:
  "init ex_env_tint ex_args_tint ex_world_tint = (Inr ex_dataset_tint, ex_world1_tint)"
proof -
  have "\<not> isl (fst (init ex_env_tint ex_args_tint ex_world_tint))" by code_simp
  then have "fst (init ex_env_tint ex_args_tint ex_world_tint) = Inr ex_dataset_tint"
    by (simp add: ex_dataset_tint_def)
  then show ?thesis by (simp add: ex_world1_tint_def prod_eq_iff)
qed

lemma ex_len_tint: "len ex_dataset_tint = 2" "do_cache ex_dataset_tint"
  by code_simp+

lemma ex_rng_tint: "rng ex_world1_tint = 9"
  by code_simp

lemma ex_caption_tint: "captions ex_dataset_tint ! Suc 0 = []"
  by code_simp

lemma ex_process_tint:
  "fst (process ex_env_tint (init_attributes ex_env_tint ex_args_tint ex_df) 1 None
          (world_at_row ex_env_tint (init_attributes ex_env_tint ex_args_tint ex_df) 1
             ex_world_tint))
   = Inr (\<lparr>shape = [1, 4, 2, 2], elems = replicate 16 9, requires_grad = True\<rparr>,
          \<lparr>shape = [4, 2, 2], elems = replicate 16 1, requires_grad = False\<rparr>,
          ''data/b.png'')"
  by code_simp

text \<open>The run outside ASCII.\<close>

lemma ex_init_sigma:
  "init ex_env_sigma ex_args_sigma ex_world_sigma = (Inr ex_dataset_sigma, ex_world1_sigma)"
proof -
  have "\<not> isl (fst (init ex_env_sigma ex_args_sigma ex_world_sigma))" by code_simp
  then have "fst (init ex_env_sigma ex_args_sigma ex_world_sigma) = Inr ex_dataset_sigma"
    by (simp add: ex_dataset_sigma_def)
  then show ?thesis by (simp add: ex_world1_sigma_def prod_eq_iff)
qed

subsection \<open>The run on five hundred rows\<close>

lemma ex_artifacts_not_image:
  "latent_file ''data'' (int i) \<noteq> ''data/a.png''" "mask_file ''data'' (int i) \<noteq> ''data/a.png''"
proof -
  show "latent_file ''data'' (int i) \<noteq> ''data/a.png''"
  proof
    assume "latent_file ''data'' (int i) = ''data/a.png''"
    then have "rev (str_nat i @ ''_vae_latent.pt'') = rev ''a.png''"
      by (simp add: latent_file_nat)
    then show False by simp
  qed
  show "mask_file ''data'' (int i) \<noteq> ''data/a.png''"
  proof
    assume "mask_file ''data'' (int i) = ''data/a.png''"
    then have "rev (str_nat i @ ''_mask.pt'') = rev ''a.png''"
      by (simp add: mask_file_nat)
    then show False by simp
  qed
qed

lemma ex_process_500:
  assumes "i < 500" and "fs w ''data/a.png'' = Some (ImageFile (640, 480))"
  shows "\<exists>d m p. process ex_env (init_attributes ex_env ex_args ex_df_500) (int i) None w
            = (Inr (d, m, p), w\<lparr>rng := Suc (rng w)\<rparr>)"
  using assms
  by (simp add: process_def finish_process_def make_mask_def init_attributes_def ex_args_def
        ex_df_500_def ex_row_def series_get_def os_path_join_def path_join_def image_open_def
        prepare_image_def ex_env_def ex_pipe_def ex_encoder_def ones_like_def)

lemma ex_cache_on_disk_500:
  "\<forall>i\<in>set idxs. i < 500 \<Longrightarrow> fs w ''data/a.png'' = Some (ImageFile (640, 480)) \<Longrightarrow>
   \<exists>w'. cache_on_disk ex_env (init_attributes ex_env ex_args ex_df_500) idxs w = (Inr (), w')"
proof (induction idxs arbitrary: w)
  case Nil
  then show ?case by simp
next
  case (Cons i idxs)
  from Cons.prems have i: "i < 500" by simp
  from ex_process_500[OF i Cons.prems(2)] obtain d m p where
    pr: "process ex_env (init_attributes ex_env ex_args ex_df_500) (int i) None w
            = (Inr (d, m, p), w\<lparr>rng := Suc (rng w)\<rparr>)"
    by blast
  have dir: "data_dir (init_attributes ex_env ex_args ex_df_500 :: (int, int tensor, nat \<times> nat, nat) dataset) = ''data''"
    by (simp add: init_attributes_def ex_args_def)
  let ?w2 = "torch_save (Tensor m) (mask_file ''data'' (int i))
               (torch_save (Dist d) (latent_file ''data'' (int i)) (w\<lparr>rng := Suc (rng w)\<rparr>))"
  have "fs ?w2 ''data/a.png'' = Some (ImageFile (640, 480))"
    using Cons.prems(2) ex_artifacts_not_image[of i] by (simp add: torch_save_def)
  with Cons.IH[of ?w2] Cons.prems(1) obtain w' where
    "cache_on_disk ex_env (init_attributes ex_env ex_args ex_df_500) idxs ?w2 = (Inr (), w')"
    by auto
  with pr dir show ?case by simp
qed

lemma ex_init_500: "init ex_env ex_args ex_world_500 = (Inr ex_dataset_500, ex_world1_500)"
proof -
  have csv: "read_csv (fs ex_world_500) (path_join (arg_data_dir ex_args) ''captions.csv'') = Inr ex_df_500"
    by (simp add: read_csv_def ex_world_500_def ex_files_def path_join_def ex_args_def)
  have "fs ex_world_500 ''data/a.png'' = Some (ImageFile (640, 480))"
    by (simp add: ex_world_500_def ex_files_def)
  from ex_cache_on_disk_500[OF _ this, of "[0..<500]"] obtain w' where
    "cache_on_disk ex_env (init_attributes ex_env ex_args ex_df_500) [0..<500] ex_world_500 = (Inr (), w')"
    by auto
  then have "\<exists>self. eager_pass ex_env (init_attributes ex_env ex_args ex_df_500) ex_world_500 = (Inr self, w')"
    by (simp add: eager_pass_def init_attributes_def ex_df_500_def)
  then have "\<not> isl (fst (init ex_env ex_args ex_world_500))"
    using csv by (auto simp: init_def setup_bucketing_def ex_args_def)
  then have "fst (init ex_env ex_args ex_world_500) = Inr ex_dataset_500"
    by (simp add: ex_dataset_500_def)
  then show ?thesis by (simp add: ex_world1_500_def prod_eq_iff)
qed

lemma ex_len_500: "len ex_dataset_500 = 500" "\<not> do_cache ex_dataset_500"
proof -
  have csv: "read_csv (fs ex_world_500) (path_join (arg_data_dir ex_args) ''captions.csv'') = Inr ex_df_500"
    by (simp add: read_csv_def ex_world_500_def ex_files_def path_join_def ex_args_def)
  from init_fields[OF ex_init_500] csv
  show "len ex_dataset_500 = 500" "\<not> do_cache ex_dataset_500"
    by (auto simp: len_def ex_df_500_def)
qed

lemma ex_csv_500:
  "read_csv (fs ex_world_500) (path_join (arg_data_dir ex_args) ''captions.csv'') = Inr ex_df_500"
  by (simp add: read_csv_def ex_world_500_def ex_files_def path_join_def ex_args_def)

lemma ex_no_artifact_500: "fs ex_world1_500 ''data/500_vae_latent.pt'' = None"
proof -
  have dir: "data_dir ex_dataset_500 = ''data''"
    using init_fields[OF ex_init_500] by (auto simp: ex_args_def)
  have name: "latent_file ''data'' 500 = ''data/500_vae_latent.pt''" by code_simp
  let ?p = "latent_file ''data'' (int (len ex_dataset_500))"
  have "\<forall>i<len ex_dataset_500.
      ?p \<noteq> latent_file (data_dir ex_dataset_500) (int i)
    \<and> ?p \<noteq> mask_file (data_dir ex_dataset_500) (int i)"
    by (auto simp: dir latent_file_inj latent_file_neq_mask_file)
  from init_on_disk_frame[OF ex_init_500 ex_len_500(2) this]
  have "fs ex_world1_500 ?p = fs ex_world_500 ?p" .
  then show ?thesis
    by (simp add: ex_len_500 name ex_world_500_def ex_files_def)
qed

lemma ex_process_500_dist:
  assumes "i < 500" and "fs w ''data/a.png'' = Some (ImageFile (640, 480))"
  shows "\<exists>m p w'. process ex_env (init_attributes ex_env ex_args ex_df_500) (int i) None w
            = (Inr (\<lparr>shape = [1, 4, 2, 2], elems = replicate 16 2, requires_grad = True\<rparr>,
                    m, p), w')"
  using assms
  by (simp add: process_def finish_process_def make_mask_def init_attributes_def ex_args_def
        ex_df_500_def ex_row_def series_get_def os_path_join_def path_join_def image_open_def
        prepare_image_def ex_env_def ex_pipe_def ex_encoder_def ones_like_def)

lemma ex_world_at_row_500:
  "fs (world_at_row ex_env (init_attributes ex_env ex_args ex_df_500) k ex_world_500)
      ''data/a.png'' = Some (ImageFile (640, 480))"
proof -
  let ?self = "init_attributes ex_env ex_args ex_df_500 :: (int, int tensor, nat \<times> nat, nat) dataset"
  have dc: "\<not> do_cache ?self" by (simp add: init_attributes_def ex_df_500_def)
  have dir: "data_dir ?self = ''data''" by (simp add: init_attributes_def ex_args_def)
  have "fs (snd (cache_on_disk ex_env ?self [0..<k] ex_world_500)) ''data/a.png''
        = fs ex_world_500 ''data/a.png''"
    by (rule cache_on_disk_frame[OF surjective_pairing])
       (intro ballI conjI; simp only: dir; rule not_sym; rule ex_artifacts_not_image)
  then show ?thesis using dc by (simp add: world_at_row_def ex_world_500_def ex_files_def)
qed

lemma ex_caption_500: "captions ex_dataset_500 ! 499 = ''x''"
proof -
  from init_fields[OF ex_init_500] ex_csv_500
  have "captions ex_dataset_500 =
      substitute_captions (str_lower ex_env) (arg_substitute_caption_map ex_args)
        (map row_caption (rows ex_df_500))"
    by auto
  then show ?thesis
    by (simp add: nth_substitute_captions ex_df_500_def ex_row_def ex_args_def ex_env_def
          str_replace_def ascii_lower_def ascii_lower_char_def)
qed

section \<open>The claims\<close>

subsection \<open>C1: the resolution handed to a read\<close>

text \<open>
  C1. The dataset of the two-row manifest is built at size 16 by 16, so a latent has
  shape 4 by 2 by 2. A read of row 0 with the resolution 8 by 8 returns exactly what
  the read without a resolution returns: latent and mask of shape 4 by 2 by 2. Encoded
  at 8 by 8, as \<open>_process\<close> does when handed that resolution, the row has a latent
  distribution of shape 1 by 4 by 1 by 1.
\<close>

theorem read_ignores_resolution_override:
  "init ex_env ex_args ex_world = (Inr ex_dataset, ex_world1)
   \<and> size' ex_dataset = (16, 16)
   \<and> getitem ex_env ex_dataset 0 (Some (8, 8)) ex_world1 = getitem ex_env ex_dataset 0 None ex_world1
   \<and> map_sum id (\<lambda>(c, lat, m). (shape lat, shape m))
        (fst (getitem ex_env ex_dataset 0 (Some (8, 8)) ex_world1)) = Inr ([4, 2, 2], [4, 2, 2])
   \<and> map_sum id (\<lambda>(d, m, p). (shape d, shape m))
        (fst (process ex_env (init_attributes ex_env ex_args ex_df) 0 (Some (8, 8)) ex_world))
        = Inr ([1, 4, 1, 1], [4])"
proof -
  have "size' ex_dataset = (16, 16)" by code_simp
  moreover have "map_sum id (\<lambda>(c, lat, m). (shape lat, shape m))
        (fst (getitem ex_env ex_dataset 0 (Some (8, 8)) ex_world1)) = Inr ([4, 2, 2], [4, 2, 2])"
    by code_simp
  moreover have "map_sum id (\<lambda>(d, m, p). (shape d, shape m))
        (fst (process ex_env (init_attributes ex_env ex_args ex_df) 0 (Some (8, 8)) ex_world))
        = Inr ([1, 4, 1, 1], [4])"
    by code_simp
  ultimately show ?thesis
    using ex_init getitem_resolution_unused[of ex_env ex_dataset 0 "(8, 8)" ex_world1] by simp
qed

subsection \<open>C2: masks of ones\<close>

text \<open>
  C2, as amended. When the manifest has no mask column, a read at any valid index
  returns a mask of ones with the shape of the returned latent (both squeezed),
  provided the shape of a sample of a latent distribution does not depend on the draw.
  The constructor decides by the column, not by the row.
\<close>

theorem mask_is_ones_without_mask_column:
  assumes "init env args w = (Inr ds, w1)"
    and "read_csv (fs w) (path_join (arg_data_dir args) ''captions.csv'') = Inr df"
    and "\<not> has_mask_column df"
    and "0 \<le> idx" and "idx < int (len ds)"
    and "fs w2 = fs w1"
    and "\<forall>d g g'. shape (fst (sample env d g)) = shape (fst (sample env d g'))"
  shows "\<exists>c lat m w3. getitem env ds idx r w2 = (Inr (c, lat, m), w3)
           \<and> shape m = shape lat \<and> elems m = replicate (prod_list (shape m)) 1"
proof -
  from assms(4,5) have k: "nat idx < len ds" and idx: "int (nat idx) = idx" by simp_all
  from getitem_after_init[OF assms(1) k assms(6), of r] assms(2) obtain d m p wk wk' where
    pr: "process env (init_attributes env args df) idx None wk = (Inr (d, m, p), wk')"
    and gi: "getitem env ds idx r w2 =
        (Inr (captions ds ! nat idx,
              detach (squeeze (mul_scalar (fst (sample env d (rng w2))) (vae_scaling_factor ds))),
              detach m),
         w2\<lparr>rng := snd (sample env d (rng w2))\<rparr>)"
    unfolding idx by auto
  have "mask_path (init_attributes env args df :: ('a, 'b, 'c, 'd) dataset) = None"
    using assms(3) by (simp add: init_attributes_def)
  from process_Inr(2)[OF pr this]
  have m: "m = squeeze (ones_like (fst (sample env d (rng wk))))" .
  from assms(7) have sh: "shape (fst (sample env d (rng wk))) = shape (fst (sample env d (rng w2)))"
    by blast
  have s: "shape (detach m) =
      shape (detach (squeeze (mul_scalar (fst (sample env d (rng w2))) (vae_scaling_factor ds))))"
    by (simp add: m sh detach_def squeeze_def ones_like_def mul_scalar_def)
  have e: "elems (detach m) = replicate (prod_list (shape (detach m))) 1"
    by (simp add: m detach_def squeeze_def ones_like_def prod_list_squeeze)
  from gi s e show ?thesis by blast
qed

theorem mask_is_ones_without_mask_column_witness:
  "init ex_env ex_args ex_world = (Inr ex_dataset, ex_world1)
   \<and> read_csv (fs ex_world) (path_join (arg_data_dir ex_args) ''captions.csv'') = Inr ex_df
   \<and> \<not> has_mask_column ex_df
   \<and> (0::int) \<le> 1 \<and> 1 < int (len ex_dataset)
   \<and> (\<forall>d g g'. shape (fst (sample ex_env d g)) = shape (fst (sample ex_env d g')))
   \<and> (\<exists>c lat m w3. getitem ex_env ex_dataset 1 None ex_world1 = (Inr (c, lat, m), w3)
           \<and> shape m = shape lat \<and> elems m = replicate (prod_list (shape m)) 1)"
proof -
  have a: "(0::int) \<le> 1" "1 < int (len ex_dataset)" by (simp_all add: ex_len)
  from mask_is_ones_without_mask_column[OF ex_init ex_csv ex_no_mask_column a refl ex_sample_shape,
      of None]
    ex_init ex_csv ex_no_mask_column a ex_sample_shape
  show ?thesis by blast
qed

theorem mask_field_missing_counterexample:
  "has_mask_column ex_df_masks
   \<and> row_mask_path (rows ex_df_masks ! 0) = Some ''m.png''
   \<and> row_mask_path (rows ex_df_masks ! 1) = None
   \<and> fst (init ex_env ex_args ex_world_masks) = Inl TypeError"
proof -
  have "isl (fst (init ex_env ex_args ex_world_masks))"
    and "projl (fst (init ex_env ex_args ex_world_masks)) = TypeError"
    by code_simp+
  then have "fst (init ex_env ex_args ex_world_masks) = Inl TypeError"
    by (metis sum.collapse(1))
  moreover have "has_mask_column ex_df_masks"
    and "row_mask_path (rows ex_df_masks ! 0) = Some ''m.png''"
    and "row_mask_path (rows ex_df_masks ! 1) = None"
    by (simp_all add: ex_df_masks_def ex_row_def)
  ultimately show ?thesis by simp
qed

subsection \<open>C3: bucketed batches never come back\<close>

text \<open>
  C3, as amended. On a dataset the constructor produced, no call of
  \<open>get_aspect_ratio_bucketed_batch\<close> returns a batch, the first no more than any later
  one: every call raises. With bucketing disabled it is the assertion of line 110 that
  fails. With bucketing enabled and a batch of at least one index from the bucket
  manager, it is the read of \<open>tokenizer_2\<close>, which the constructor never assigns: an
  attribute error, raised before any index is read (the world is unchanged, the
  bucket manager has moved on).
\<close>

theorem bucketed_batch_never_returns:
  assumes "init env args w = (Inr ds, w1)"
  shows "(\<exists>e. fst (get_aspect_ratio_bucketed_batch env (fst (after_batches env n ds w2))
                    (snd (after_batches env n ds w2))) = Inl e)
       \<and> (\<not> arg_aspect_ratio_bucketing args \<longrightarrow>
            fst (get_aspect_ratio_bucketed_batch env ds w2) = Inl AssertionError)
       \<and> (\<forall>bm bm' idx rest res.
            bucket_manager ds = Some bm \<and> get_batch env bm = (Inr (idx # rest, res), bm') \<longrightarrow>
            get_aspect_ratio_bucketed_batch env ds w2 =
              (Inl (AttributeError ''tokenizer_2''), ds\<lparr>bucket_manager := Some bm'\<rparr>, w2))"
proof -
  from init_fields[OF assms] have t: "tokenizer_2 ds = AttrUndefined"
    and b: "arg_aspect_ratio_bucketing args \<longleftrightarrow> bucket_manager ds \<noteq> None"
    by blast+
  from t have "tokenizer_2 (fst (after_batches env n ds w2)) = AttrUndefined"
    by (simp add: after_batches_tokenizer_2)
  from batch_raises_without_tokenizer_2[OF this]
  have c1: "\<exists>e. fst (get_aspect_ratio_bucketed_batch env (fst (after_batches env n ds w2))
                    (snd (after_batches env n ds w2))) = Inl e" .
  from b have c2: "\<not> arg_aspect_ratio_bucketing args \<longrightarrow>
            fst (get_aspect_ratio_bucketed_batch env ds w2) = Inl AssertionError"
    by (simp add: get_aspect_ratio_bucketed_batch_def)
  from t have c3: "\<forall>bm bm' idx rest res.
            bucket_manager ds = Some bm \<and> get_batch env bm = (Inr (idx # rest, res), bm') \<longrightarrow>
            get_aspect_ratio_bucketed_batch env ds w2 =
              (Inl (AttributeError ''tokenizer_2''), ds\<lparr>bucket_manager := Some bm'\<rparr>, w2)"
    by (auto intro: batch_attribute_error)
  from c1 c2 c3 show ?thesis by blast
qed

theorem bucketed_batch_never_returns_witness:
  "init ex_env ex_args ex_world = (Inr ex_dataset, ex_world1)
   \<and> \<not> arg_aspect_ratio_bucketing ex_args
   \<and> fst (get_aspect_ratio_bucketed_batch ex_env ex_dataset ex_world1) = Inl AssertionError
   \<and> init ex_env ex_args_bucketing ex_world
       = (Inr ex_dataset_bucketing, snd (init ex_env ex_args_bucketing ex_world))
   \<and> bucket_manager ex_dataset_bucketing = Some 0
   \<and> get_batch ex_env 0 = (Inr ([0], (8, 8)), 1)
   \<and> get_aspect_ratio_bucketed_batch ex_env ex_dataset_bucketing ex_world1 =
        (Inl (AttributeError ''tokenizer_2''), ex_dataset_bucketing\<lparr>bucket_manager := Some 1\<rparr>,
         ex_world1)
   \<and> (\<exists>e. fst (get_aspect_ratio_bucketed_batch ex_env
               (fst (after_batches ex_env 3 ex_dataset_bucketing ex_world1))
               (snd (after_batches ex_env 3 ex_dataset_bucketing ex_world1))) = Inl e)"
  using bucketed_batch_never_returns[OF ex_init, of 0 ex_world1]
    bucketed_batch_never_returns[OF ex_init_bucketing, of 3 ex_world1]
    ex_init ex_init_bucketing ex_args_no_bucketing ex_bucket_manager ex_get_batch
  by simp

theorem bucketed_batch_assertion_counterexample:
  "init ex_env ex_args ex_world = (Inr ex_dataset, ex_world1)
   \<and> fst (get_aspect_ratio_bucketed_batch ex_env ex_dataset ex_world1) = Inl AssertionError
   \<and> AssertionError \<noteq> AttributeError ''tokenizer_2''"
proof -
  from init_fields[OF ex_init] ex_args_no_bucketing have "bucket_manager ex_dataset = None"
    by auto
  then have "fst (get_aspect_ratio_bucketed_batch ex_env ex_dataset ex_world1) = Inl AssertionError"
    by (simp add: get_aspect_ratio_bucketed_batch_def)
  with ex_init show ?thesis by simp
qed

subsection \<open>C4: the storage mode\<close>

text \<open>
  C4. The storage mode is chosen once, by the constructor, from the number of rows of
  the manifest: in memory when there are fewer than 500 rows, on disk from 500 rows on
  (so 499 rows select memory and 500 rows select disk). Reading an example does not
  return a dataset, and a bucketed batch returns one with the same mode and length.
\<close>

theorem storage_mode_chosen_once:
  assumes "init env args w = (Inr ds, w1)"
  shows "(\<exists>df. read_csv (fs w) (path_join (arg_data_dir args) ''captions.csv'') = Inr df
            \<and> len ds = length (rows df))
       \<and> do_cache ds = (len ds < 500)
       \<and> do_cache (fst (snd (get_aspect_ratio_bucketed_batch env ds w2))) = do_cache ds
       \<and> len (fst (snd (get_aspect_ratio_bucketed_batch env ds w2))) = len ds"
proof -
  from init_fields[OF assms] obtain df where
    "read_csv (fs w) (path_join (arg_data_dir args) ''captions.csv'') = Inr df"
    "data ds = df" "do_cache ds = (length (rows df) < 500)"
    by blast
  moreover obtain bm where
    "fst (snd (get_aspect_ratio_bucketed_batch env ds w2)) = ds\<lparr>bucket_manager := bm\<rparr>"
    using get_batch_dataset by blast
  ultimately show ?thesis by (simp add: len_def)
qed

theorem storage_mode_chosen_once_witness:
  "init ex_env ex_args ex_world = (Inr ex_dataset, ex_world1)
   \<and> len ex_dataset = 2 \<and> do_cache ex_dataset
   \<and> do_cache (fst (snd (get_aspect_ratio_bucketed_batch ex_env ex_dataset ex_world1)))
   \<and> init ex_env ex_args ex_world_500 = (Inr ex_dataset_500, ex_world1_500)
   \<and> len ex_dataset_500 = 500 \<and> \<not> do_cache ex_dataset_500
   \<and> \<not> do_cache (fst (snd (get_aspect_ratio_bucketed_batch ex_env ex_dataset_500 ex_world1_500)))"
  using storage_mode_chosen_once[OF ex_init, of ex_world1]
    storage_mode_chosen_once[OF ex_init_500, of ex_world1_500]
    ex_init ex_init_500 ex_len ex_len_500
  by simp

subsection \<open>C5: the latent of a read\<close>

text \<open>
  C5. After construction, a read at a valid index draws one sample from the latent
  distribution the eager pass stored for that row, and returns as latent the sample
  with every element multiplied by the encoder's scaling factor, without the
  dimensions of size one and without gradient tracking. The stored distribution is
  the one \<open>_process\<close> returned for the row when the pass reached it: in memory it is the
  entry of \<open>vae_latents\<close> at the index, on disk the content of the latent artifact of
  the index. The mask returned is the one of that call of \<open>_process\<close>, detached; the
  generator advances by the one draw. This holds in both storage modes, as long as
  the files are those the constructor left.
\<close>

theorem latent_is_scaled_sample:
  assumes "init env args w = (Inr ds, w1)"
    and "0 \<le> idx" and "idx < int (len ds)"
    and "fs w2 = fs w1"
  shows "\<exists>df d m p wk' lat mk.
      read_csv (fs w) (path_join (arg_data_dir args) ''captions.csv'') = Inr df
    \<and> process env (init_attributes env args df) idx None
          (world_at_row env (init_attributes env args df) (nat idx) w) = (Inr (d, m, p), wk')
    \<and> (do_cache ds \<longrightarrow> (\<exists>ls. vae_latents ds = Some ls \<and> ls ! nat idx = d))
    \<and> (\<not> do_cache ds \<longrightarrow>
          fs w1 (latent_file (data_dir ds) idx) = Some (PickleFile (Dist d)))
    \<and> getitem env ds idx r w2 =
          (Inr (captions ds ! nat idx, lat, mk), w2\<lparr>rng := snd (sample env d (rng w2))\<rparr>)
    \<and> shape lat = filter (\<lambda>n. n \<noteq> 1) (shape (fst (sample env d (rng w2))))
    \<and> elems lat = map (\<lambda>x. x * scaling_factor (arg_vae_encoder args))
                     (elems (fst (sample env d (rng w2))))
    \<and> requires_grad lat = False
    \<and> shape mk = shape m \<and> elems mk = elems m \<and> requires_grad mk = False"
proof -
  define k where "k = nat idx"
  from assms(2,3) have k: "k < len ds" and idx: "idx = int k" by (simp_all add: k_def)
  from init_Inr[OF assms(1)] obtain df self w0 where
    csv: "read_csv (fs w) (path_join (arg_data_dir args) ''captions.csv'') = Inr df"
    and ep: "eager_pass env (init_attributes env args df) w = (Inr self, w0)"
    and w1: "w1 = w0\<lparr>empty_cache_calls := Suc (empty_cache_calls w0)\<rparr>"
    and sb: "setup_bucketing env args (self\<lparr>vae_encoder := None\<rparr>) (fs w0) = Inr ds"
    by blast
  from setup_bucketing_Inr[OF sb] obtain bm where
    ds: "ds = self\<lparr>vae_encoder := None, bucket_manager := bm\<rparr>" by auto
  define self0 where "self0 = init_attributes env args df"
  have n: "length (rows (data self0)) = length (rows df)"
    by (simp add: self0_def init_attributes_def)
  have caps0: "length (captions self0) = length (rows df)"
    by (simp add: self0_def init_attributes_def length_substitute_captions)
  have sf0: "vae_scaling_factor self0 = scaling_factor (arg_vae_encoder args)"
    by (simp add: self0_def init_attributes_def)
  from eager_pass_Inr[OF ep] show ?thesis
  proof (elim disjE conjE exE)
    fix ls ms
    assume dc: "do_cache (init_attributes env args df)"
      and cm: "cache_in_memory env (init_attributes env args df)
          [0..<length (rows (data (init_attributes env args df)))] ([], []) w = (Inr (ls, ms), w0)"
      and self: "self = (init_attributes env args df)\<lparr>vae_latents := Some ls, masks := Some ms\<rparr>"
    from k have kn: "k < length (rows df)" by (simp add: len_def ds self init_attributes_def)
    from cache_in_memory_row[OF cm[folded self0_def, unfolded n] kn] obtain m p wk' where
      pr: "process env self0 (int k) None (snd (cache_in_memory env self0 [0..<k] ([], []) w))
        = (Inr (ls ! k, m, p), wk')"
      and mk: "ms ! k = detach m" and len: "length ls = length (rows df)" "length ms = length (rows df)"
      by blast
    from dc have war: "world_at_row env self0 k w = snd (cache_in_memory env self0 [0..<k] ([], []) w)"
      by (simp add: world_at_row_def self0_def)
    have gi: "getitem env ds (int k) r w2 =
        (Inr (captions ds ! k,
              detach (squeeze (mul_scalar (fst (sample env (ls ! k) (rng w2))) (vae_scaling_factor ds))),
              detach (ms ! k)),
         w2\<lparr>rng := snd (sample env (ls ! k) (rng w2))\<rparr>)"
      using dc len kn caps0
      by (intro getitem_in_memory) (simp_all add: ds self self0_def)
    have dcd: "do_cache ds" using dc by (simp add: ds self)
    have vl: "vae_latents ds = Some ls" by (simp add: ds self)
    have sf: "vae_scaling_factor ds = scaling_factor (arg_vae_encoder args)"
      using sf0 by (simp add: ds self self0_def)
    show ?thesis
      apply (rule exI[of _ df], rule exI[of _ "ls ! k"], rule exI[of _ m], rule exI[of _ p],
             rule exI[of _ wk'])
      apply (rule exI[of _ "detach (squeeze (mul_scalar (fst (sample env (ls ! k) (rng w2)))
                 (scaling_factor (arg_vae_encoder args))))"])
      apply (rule exI[of _ "detach m"])
      using csv pr war gi dcd vl sf mk
      by (simp add: idx self0_def detach_detach k_def[symmetric]
            detach_def squeeze_def mul_scalar_def)
  next
    assume dc: "\<not> do_cache (init_attributes env args df)"
      and cd: "cache_on_disk env (init_attributes env args df)
          [0..<length (rows (data (init_attributes env args df)))] w = (Inr (), w0)"
      and self: "self = (init_attributes env args df)\<lparr>vae_latents := None, masks := None\<rparr>"
    from k have kn: "k < length (rows df)" by (simp add: len_def ds self init_attributes_def)
    from cache_on_disk_row[OF cd[folded self0_def, unfolded n] kn] obtain d m p wk' where
      pr: "process env self0 (int k) None (snd (cache_on_disk env self0 [0..<k] w))
        = (Inr (d, m, p), wk')"
      and lf: "fs w0 (latent_file (data_dir self0) (int k)) = Some (PickleFile (Dist d))"
      and mf: "fs w0 (mask_file (data_dir self0) (int k)) = Some (PickleFile (Tensor m))"
      by blast
    from dc have war: "world_at_row env self0 k w = snd (cache_on_disk env self0 [0..<k] w)"
      by (simp add: world_at_row_def self0_def)
    have dird: "data_dir ds = data_dir self0" by (simp add: ds self self0_def)
    have gi: "getitem env ds (int k) r w2 =
        (Inr (captions ds ! k,
              detach (squeeze (mul_scalar (fst (sample env d (rng w2))) (vae_scaling_factor ds))),
              detach m),
         w2\<lparr>rng := snd (sample env d (rng w2))\<rparr>)"
      using dc lf mf kn caps0 assms(4)
      by (intro getitem_on_disk) (simp_all add: ds self w1 self0_def)
    have dcd: "\<not> do_cache ds" using dc by (simp add: ds self)
    have lf1: "fs w1 (latent_file (data_dir ds) (int k)) = Some (PickleFile (Dist d))"
      using lf by (simp add: dird w1)
    have sf: "vae_scaling_factor ds = scaling_factor (arg_vae_encoder args)"
      using sf0 by (simp add: ds self self0_def)
    show ?thesis
      apply (rule exI[of _ df], rule exI[of _ d], rule exI[of _ m], rule exI[of _ p],
             rule exI[of _ wk'])
      apply (rule exI[of _ "detach (squeeze (mul_scalar (fst (sample env d (rng w2)))
                 (scaling_factor (arg_vae_encoder args))))"])
      apply (rule exI[of _ "detach m"])
      using csv pr war gi dcd lf1 sf
      by (simp add: idx self0_def k_def[symmetric]
            detach_def squeeze_def mul_scalar_def)
  qed
qed

theorem latent_is_scaled_sample_witness:
  "init ex_env_tint ex_args_tint ex_world_tint = (Inr ex_dataset_tint, ex_world1_tint)
   \<and> (0::int) \<le> 1 \<and> (1::int) < int (len ex_dataset_tint)
   \<and> do_cache ex_dataset_tint
   \<and> (\<exists>d m p wk' ls lat mk.
        process ex_env_tint (init_attributes ex_env_tint ex_args_tint ex_df) 1 None
          (world_at_row ex_env_tint (init_attributes ex_env_tint ex_args_tint ex_df) (nat 1)
             ex_world_tint) = (Inr (d, m, p), wk')
      \<and> d = \<lparr>shape = [1, 4, 2, 2], elems = replicate 16 9, requires_grad = True\<rparr>
      \<and> vae_latents ex_dataset_tint = Some ls \<and> ls ! nat 1 = d
      \<and> getitem ex_env_tint ex_dataset_tint 1 None ex_world1_tint =
          (Inr ([], lat, mk), ex_world1_tint\<lparr>rng := 10\<rparr>)
      \<and> shape lat = [4, 2, 2] \<and> elems lat = replicate 16 54 \<and> requires_grad lat = False
      \<and> shape mk = [4, 2, 2] \<and> elems mk = replicate 16 1 \<and> requires_grad mk = False)
   \<and> init ex_env ex_args ex_world_500 = (Inr ex_dataset_500, ex_world1_500)
   \<and> (0::int) \<le> 499 \<and> (499::int) < int (len ex_dataset_500)
   \<and> \<not> do_cache ex_dataset_500
   \<and> (\<exists>d lat mk.
        d = \<lparr>shape = [1, 4, 2, 2], elems = replicate 16 2, requires_grad = True\<rparr>
      \<and> fs ex_world1_500 (latent_file (data_dir ex_dataset_500) 499) = Some (PickleFile (Dist d))
      \<and> getitem ex_env ex_dataset_500 499 None ex_world1_500 =
          (Inr (''x'', lat, mk), ex_world1_500\<lparr>rng := Suc (rng ex_world1_500)\<rparr>)
      \<and> shape lat = [4, 2, 2]
      \<and> elems lat = replicate 16 ((2 + int (rng ex_world1_500)) * 3)
      \<and> requires_grad lat = False)"
proof -
  have a: "(0::int) \<le> 1" "(1::int) < int (len ex_dataset_tint)" by (simp_all add: ex_len_tint)
  have b: "(0::int) \<le> 499" "(499::int) < int (len ex_dataset_500)" by (simp_all add: ex_len_500)
  have csv: "read_csv (fs ex_world_tint) (path_join (arg_data_dir ex_args_tint) ''captions.csv'')
      = Inr ex_df"
    by (simp add: read_csv_def ex_world_tint_def path_join_def ex_args_tint_def)
  have sf: "scaling_factor (arg_vae_encoder ex_args_tint) = 3"
    "scaling_factor (arg_vae_encoder ex_args) = 3"
    by (simp_all add: ex_args_tint_def ex_encoder_tint_def ex_args_def ex_encoder_def)
  have smp: "sample ex_env_tint d g = (d\<lparr>elems := map (\<lambda>x. x + int g) (elems d)\<rparr>, Suc g)"
    "sample ex_env d g = (d\<lparr>elems := map (\<lambda>x. x + int g) (elems d)\<rparr>, Suc g)" for d g
    by (simp_all add: ex_env_tint_def ex_env_def)
  have first: "\<exists>d m p wk' ls lat mk.
        process ex_env_tint (init_attributes ex_env_tint ex_args_tint ex_df) 1 None
          (world_at_row ex_env_tint (init_attributes ex_env_tint ex_args_tint ex_df) (nat 1)
             ex_world_tint) = (Inr (d, m, p), wk')
      \<and> d = \<lparr>shape = [1, 4, 2, 2], elems = replicate 16 9, requires_grad = True\<rparr>
      \<and> vae_latents ex_dataset_tint = Some ls \<and> ls ! nat 1 = d
      \<and> getitem ex_env_tint ex_dataset_tint 1 None ex_world1_tint =
          (Inr ([], lat, mk), ex_world1_tint\<lparr>rng := 10\<rparr>)
      \<and> shape lat = [4, 2, 2] \<and> elems lat = replicate 16 54 \<and> requires_grad lat = False
      \<and> shape mk = [4, 2, 2] \<and> elems mk = replicate 16 1 \<and> requires_grad mk = False"
  proof -
    from latent_is_scaled_sample[OF ex_init_tint a refl, of None]
    obtain df d m p wk' lat mk where
      df: "read_csv (fs ex_world_tint) (path_join (arg_data_dir ex_args_tint) ''captions.csv'')
             = Inr df"
      and pr: "process ex_env_tint (init_attributes ex_env_tint ex_args_tint df) 1 None
          (world_at_row ex_env_tint (init_attributes ex_env_tint ex_args_tint df) (nat 1)
             ex_world_tint) = (Inr (d, m, p), wk')"
      and mem: "do_cache ex_dataset_tint \<longrightarrow>
          (\<exists>ls. vae_latents ex_dataset_tint = Some ls \<and> ls ! nat 1 = d)"
      and gi: "getitem ex_env_tint ex_dataset_tint 1 None ex_world1_tint =
          (Inr (captions ex_dataset_tint ! nat 1, lat, mk),
           ex_world1_tint\<lparr>rng := snd (sample ex_env_tint d (rng ex_world1_tint))\<rparr>)"
      and lat: "shape lat = filter (\<lambda>n. n \<noteq> 1) (shape (fst (sample ex_env_tint d (rng ex_world1_tint))))"
        "elems lat = map (\<lambda>x. x * scaling_factor (arg_vae_encoder ex_args_tint))
                     (elems (fst (sample ex_env_tint d (rng ex_world1_tint))))"
        "requires_grad lat = False"
      and mk: "shape mk = shape m" "elems mk = elems m" "requires_grad mk = False"
      by blast
    from df csv have dfeq: "df = ex_df" by simp
    from pr ex_process_tint have d: "d = \<lparr>shape = [1, 4, 2, 2], elems = replicate 16 9, requires_grad = True\<rparr>"
      and m: "m = \<lparr>shape = [4, 2, 2], elems = replicate 16 1, requires_grad = False\<rparr>"
      by (simp_all add: dfeq)
    from mem ex_len_tint obtain ls where ls: "vae_latents ex_dataset_tint = Some ls" "ls ! nat 1 = d"
      by blast
    have l1: "shape lat = [4, 2, 2]" using lat(1) by (simp add: smp d)
    have l2: "elems lat = replicate 16 54" using lat(2) by (simp add: smp d sf ex_rng_tint)
    have g: "getitem ex_env_tint ex_dataset_tint 1 None ex_world1_tint =
          (Inr ([], lat, mk), ex_world1_tint\<lparr>rng := 10\<rparr>)"
      using gi by (simp add: smp ex_rng_tint ex_caption_tint)
    from pr[unfolded dfeq] d ls g l1 l2 lat(3) mk[unfolded m] show ?thesis
      by (intro exI[of _ d] exI[of _ m] exI[of _ p] exI[of _ wk'] exI[of _ ls] exI[of _ lat]
            exI[of _ mk]) simp
  qed
  have second: "\<exists>d lat mk.
        d = \<lparr>shape = [1, 4, 2, 2], elems = replicate 16 2, requires_grad = True\<rparr>
      \<and> fs ex_world1_500 (latent_file (data_dir ex_dataset_500) 499) = Some (PickleFile (Dist d))
      \<and> getitem ex_env ex_dataset_500 499 None ex_world1_500 =
          (Inr (''x'', lat, mk), ex_world1_500\<lparr>rng := Suc (rng ex_world1_500)\<rparr>)
      \<and> shape lat = [4, 2, 2]
      \<and> elems lat = replicate 16 ((2 + int (rng ex_world1_500)) * 3)
      \<and> requires_grad lat = False"
  proof -
    from latent_is_scaled_sample[OF ex_init_500 b refl, of None]
    obtain df d m p wk' lat mk where
      df: "read_csv (fs ex_world_500) (path_join (arg_data_dir ex_args) ''captions.csv'') = Inr df"
      and pr: "process ex_env (init_attributes ex_env ex_args df) 499 None
          (world_at_row ex_env (init_attributes ex_env ex_args df) (nat 499) ex_world_500)
            = (Inr (d, m, p), wk')"
      and disk: "\<not> do_cache ex_dataset_500 \<longrightarrow>
          fs ex_world1_500 (latent_file (data_dir ex_dataset_500) 499) = Some (PickleFile (Dist d))"
      and gi: "getitem ex_env ex_dataset_500 499 None ex_world1_500 =
          (Inr (captions ex_dataset_500 ! nat 499, lat, mk),
           ex_world1_500\<lparr>rng := snd (sample ex_env d (rng ex_world1_500))\<rparr>)"
      and lat: "shape lat = filter (\<lambda>n. n \<noteq> 1) (shape (fst (sample ex_env d (rng ex_world1_500))))"
        "elems lat = map (\<lambda>x. x * scaling_factor (arg_vae_encoder ex_args))
                     (elems (fst (sample ex_env d (rng ex_world1_500))))"
        "requires_grad lat = False"
      by blast
    from df ex_csv_500 have dfeq: "df = ex_df_500" by simp
    from ex_process_500_dist[OF _ ex_world_at_row_500, of 499 "nat 499"] pr
    have d: "d = \<lparr>shape = [1, 4, 2, 2], elems = replicate 16 2, requires_grad = True\<rparr>"
      by (auto simp: dfeq)
    have l1: "shape lat = [4, 2, 2]" using lat(1) by (simp add: smp d)
    have l2: "elems lat = replicate 16 ((2 + int (rng ex_world1_500)) * 3)"
      using lat(2) by (simp add: smp d sf)
    have g: "getitem ex_env ex_dataset_500 499 None ex_world1_500 =
          (Inr (''x'', lat, mk), ex_world1_500\<lparr>rng := Suc (rng ex_world1_500)\<rparr>)"
      using gi by (simp add: smp ex_caption_500)
    from d disk ex_len_500(2) g l1 l2 lat(3) show ?thesis
      by (intro exI[of _ d] exI[of _ lat] exI[of _ mk]) simp
  qed
  from ex_init_tint a ex_len_tint(2) first ex_init_500 b ex_len_500(2) second
  show ?thesis by (simp only: simp_thms)
qed

subsection \<open>C6: captions\<close>

text \<open>
  C6, as amended. When the raw caption and the keys and values of the substitution
  map are ASCII, the caption the dataset stores for a row, and serves on a read, is
  the raw caption in lower case in which the keys, in lower case, are replaced in
  turn by their values. The keys are thereby matched without regard to case: a
  caption and a map that differ from the given ones only in the case of the letters
  of the caption and of the keys give the same stored caption, and for a map of one
  non-empty key the stored caption is what the specification's wording gives on the
  raw caption. With the map cat to dog, the caption "A CAT sat" becomes "a dog sat".
  What is assumed of \<open>str.lower\<close> is its contract on ASCII strings.
\<close>

theorem caption_lowercased_and_substituted:
  assumes "init env args w = (Inr ds, w1)"
    and "read_csv (fs w) (path_join (arg_data_dir args) ''captions.csv'') = Inr df"
    and "k < length (rows df)"
    and "row_caption (rows df ! k) = Some raw"
    and "fs w2 = fs w1"
    and "\<forall>s. ascii s \<longrightarrow> str_lower env s = ascii_lower s"
    and "ascii raw"
    and "list_all (\<lambda>kv. ascii (fst kv) \<and> ascii (snd kv)) (arg_substitute_caption_map args)"
  shows "captions ds ! k =
           fold (\<lambda>(key, value) s. str_replace s (ascii_lower key) value)
             (arg_substitute_caption_map args) (ascii_lower raw)
       \<and> (\<exists>lat m w3. getitem env ds (int k) r w2 = (Inr (captions ds ! k, lat, m), w3))
       \<and> (\<forall>raw' m'. ascii raw' \<and> list_all (\<lambda>kv. ascii (fst kv) \<and> ascii (snd kv)) m'
             \<and> same_ignoring_case raw' raw
             \<and> same_map_ignoring_case m' (arg_substitute_caption_map args) \<longrightarrow>
             substitute_captions (str_lower env) m' [Some raw'] = [captions ds ! k])
       \<and> (\<forall>key value. arg_substitute_caption_map args = [(key, value)] \<and> key \<noteq> [] \<longrightarrow>
             captions ds ! k = spec_replace_ignoring_case key value raw)
       \<and> substitute_captions (str_lower env) [(''cat'', ''dog'')] [Some ''A CAT sat'']
            = [''a dog sat'']"
proof -
  let ?m = "arg_substitute_caption_map args"
  from assms(6) have low: "\<And>s. ascii s \<Longrightarrow> str_lower env s = ascii_lower s" by blast
  have keys: "list_all (\<lambda>kv. ascii (fst kv)) m"
    if "list_all (\<lambda>kv. ascii (fst kv) \<and> ascii (snd kv)) m" for m :: "(string \<times> string) list"
    using that by (simp add: list_all_iff)
  from init_fields[OF assms(1)] assms(2) have
    caps: "captions ds = substitute_captions (str_lower env) ?m (map row_caption (rows df))"
    and data: "data ds = df"
    by auto
  from caps assms(3,4) have "captions ds ! k =
           fold (\<lambda>(key, value) s. str_replace s (str_lower env key) value) ?m (str_lower env raw)"
    by (simp add: nth_substitute_captions)
  with low[OF assms(7)] fold_str_replace_ascii[of "str_lower env", OF low keys[OF assms(8)]]
  have c1: "captions ds ! k =
      fold (\<lambda>(key, value) s. str_replace s (ascii_lower key) value) ?m (ascii_lower raw)"
    by simp
  from assms(3) data have "k < len ds" by (simp add: len_def)
  from getitem_after_init[OF assms(1) this assms(5), of r]
  have c2: "\<exists>lat m w3. getitem env ds (int k) r w2 = (Inr (captions ds ! k, lat, m), w3)"
    by blast
  have c3: "substitute_captions (str_lower env) m' [Some raw'] = [captions ds ! k]"
    if "ascii raw'" "list_all (\<lambda>kv. ascii (fst kv) \<and> ascii (snd kv)) m'"
      "same_ignoring_case raw' raw" "same_map_ignoring_case m' ?m" for raw' m'
  proof -
    have "substitute_captions (str_lower env) m' [Some raw'] =
        [fold (\<lambda>(key, value) s. str_replace s (ascii_lower key) value) m' (ascii_lower raw')]"
      using low[OF that(1)] fold_str_replace_ascii[of "str_lower env", OF low keys[OF that(2)]]
      by (simp add: substitute_captions_single)
    also have "ascii_lower raw' = ascii_lower raw"
      using that(3) by (simp add: same_ignoring_case_iff)
    also have "fold (\<lambda>(key, value) s. str_replace s (ascii_lower key) value) m' (ascii_lower raw)
        = fold (\<lambda>(key, value) s. str_replace s (ascii_lower key) value) ?m (ascii_lower raw)"
      by (rule same_map_ignoring_case_fold[OF that(4)])
    finally show ?thesis by (simp add: c1)
  qed
  from c1 have c4: "\<forall>key value. ?m = [(key, value)] \<and> key \<noteq> [] \<longrightarrow>
                captions ds ! k = spec_replace_ignoring_case key value raw"
    by (auto simp: str_replace_ignoring_case)
  have "ascii ''A CAT sat''" "ascii ''cat''" by (simp_all add: ascii_def)
  with low have "str_lower env ''A CAT sat'' = ascii_lower ''A CAT sat''"
    "str_lower env ''cat'' = ascii_lower ''cat''" by blast+
  then have c5: "substitute_captions (str_lower env) [(''cat'', ''dog'')] [Some ''A CAT sat'']
              = [''a dog sat'']"
    using ex_caption by (simp add: substitute_captions_single)
  from c1 c2 c3 c4 c5 show ?thesis by blast
qed

theorem caption_lowercased_and_substituted_witness:
  "init ex_env ex_args ex_world = (Inr ex_dataset, ex_world1)
   \<and> read_csv (fs ex_world) (path_join (arg_data_dir ex_args) ''captions.csv'') = Inr ex_df
   \<and> 0 < length (rows ex_df)
   \<and> row_caption (rows ex_df ! 0) = Some ''A CAT sat''
   \<and> arg_substitute_caption_map ex_args = [(''cat'', ''dog'')]
   \<and> str_lower ex_env = ascii_lower
   \<and> ascii ''A CAT sat''
   \<and> list_all (\<lambda>kv. ascii (fst kv) \<and> ascii (snd kv)) (arg_substitute_caption_map ex_args)
   \<and> captions ex_dataset ! 0 = ''a dog sat''
   \<and> (\<exists>lat m w3. getitem ex_env ex_dataset (int 0) None ex_world1 = (Inr (''a dog sat'', lat, m), w3))
   \<and> ascii ''a Cat SAT'' \<and> list_all (\<lambda>kv. ascii (fst kv) \<and> ascii (snd kv)) [(''CaT'', ''dog'')]
   \<and> same_ignoring_case ''a Cat SAT'' ''A CAT sat''
   \<and> same_map_ignoring_case [(''CaT'', ''dog'')] (arg_substitute_caption_map ex_args)
   \<and> substitute_captions (str_lower ex_env) [(''CaT'', ''dog'')] [Some ''a Cat SAT''] = [''a dog sat'']
   \<and> spec_replace_ignoring_case ''cat'' ''dog'' ''A CAT sat'' = ''a dog sat''
   \<and> substitute_captions (str_lower ex_env) [(''cat'', ''dog'')] [Some ''A CAT sat''] = [''a dog sat'']"
proof -
  have a: "0 < length (rows ex_df)" "row_caption (rows ex_df ! 0) = Some ''A CAT sat''"
    by (simp_all add: ex_df_def ex_row_def)
  have m: "arg_substitute_caption_map ex_args = [(''cat'', ''dog'')]" by (simp add: ex_args_def)
  have l: "str_lower ex_env = ascii_lower" by (simp add: ex_env_def)
  then have low: "\<forall>s. ascii s \<longrightarrow> str_lower ex_env s = ascii_lower s" by simp
  have asc: "ascii ''A CAT sat''"
    "list_all (\<lambda>kv. ascii (fst kv) \<and> ascii (snd kv)) (arg_substitute_caption_map ex_args)"
    and asc': "ascii ''a Cat SAT''"
    "list_all (\<lambda>kv. ascii (fst kv) \<and> ascii (snd kv)) [(''CaT'', ''dog'')]"
    by (simp_all add: ascii_def m)
  have same: "same_ignoring_case ''a Cat SAT'' ''A CAT sat''"
    "same_map_ignoring_case [(''CaT'', ''dog'')] (arg_substitute_caption_map ex_args)"
    by (simp_all add: m same_map_ignoring_case_def same_ignoring_case_def same_letter_def)
  note t = caption_lowercased_and_substituted[OF ex_init ex_csv a refl low asc, of None]
  from t have c: "captions ex_dataset ! 0 =
        fold (\<lambda>(key, value) s. str_replace s (ascii_lower key) value)
          (arg_substitute_caption_map ex_args) (ascii_lower ''A CAT sat'')"
    by blast
  then have c': "captions ex_dataset ! 0 = ''a dog sat''"
    using ex_caption by (simp only: m)
  from t have g: "\<exists>lat m w3. getitem ex_env ex_dataset (int 0) None ex_world1
            = (Inr (captions ex_dataset ! 0, lat, m), w3)"
    by blast
  from t asc' same
  have i: "substitute_captions (str_lower ex_env) [(''CaT'', ''dog'')] [Some ''a Cat SAT'']
        = [captions ex_dataset ! 0]"
    by blast
  from t m
  have s: "captions ex_dataset ! 0 = spec_replace_ignoring_case ''cat'' ''dog'' ''A CAT sat''"
    by blast
  from t
  have e: "substitute_captions (str_lower ex_env) [(''cat'', ''dog'')] [Some ''A CAT sat'']
        = [''a dog sat'']"
    by blast
  from ex_init ex_csv a m l asc asc' same c' g[unfolded c'] i[unfolded c'] s[unfolded c', symmetric] e
  show ?thesis by (simp only: simp_thms)
qed

text \<open>
  Outside ASCII a key is not always matched. The raw caption is a capital alpha
  followed by a capital sigma, and the map sends the capital sigma to x: the key
  stands in the raw caption, in the same case even. \<open>str.lower\<close> gives the caption the
  final small sigma and the key the other small sigma, so that nothing is replaced:
  the stored caption is the small alpha followed by the final small sigma, and no x.
\<close>

theorem key_not_matched_outside_ascii_counterexample:
  "init ex_env_sigma ex_args_sigma ex_world_sigma = (Inr ex_dataset_sigma, ex_world1_sigma)
   \<and> row_caption (rows ex_df_sigma ! 0) = Some ([CHR 0xCE, CHR 0x91] @ capital_sigma)
   \<and> arg_substitute_caption_map ex_args_sigma = [(capital_sigma, ''x'')]
   \<and> str_lower ex_env_sigma ([CHR 0xCE, CHR 0x91] @ capital_sigma)
        = [CHR 0xCE, CHR 0xB1, CHR 0xCF, CHR 0x82]
   \<and> str_lower ex_env_sigma capital_sigma = [CHR 0xCF, CHR 0x83]
   \<and> captions ex_dataset_sigma ! 0 = [CHR 0xCE, CHR 0xB1, CHR 0xCF, CHR 0x82]
   \<and> CHR ''x'' \<notin> set (captions ex_dataset_sigma ! 0)
   \<and> map_sum id fst (fst (getitem ex_env_sigma ex_dataset_sigma 0 None ex_world1_sigma))
        = Inr [CHR 0xCE, CHR 0xB1, CHR 0xCF, CHR 0x82]
   \<and> spec_replace_ignoring_case capital_sigma ''x'' ([CHR 0xCE, CHR 0x91] @ capital_sigma)
        = [CHR 0xCE, CHR 0x91] @ ''x''"
proof -
  have a: "row_caption (rows ex_df_sigma ! 0) = Some ([CHR 0xCE, CHR 0x91] @ capital_sigma)"
    by (simp add: ex_df_sigma_def ex_row_def capital_alpha_sigma_def)
  have b: "arg_substitute_caption_map ex_args_sigma = [(capital_sigma, ''x'')]"
    by (simp add: ex_args_sigma_def)
  have c: "str_lower ex_env_sigma ([CHR 0xCE, CHR 0x91] @ capital_sigma)
        = [CHR 0xCE, CHR 0xB1, CHR 0xCF, CHR 0x82]"
    "str_lower ex_env_sigma capital_sigma = [CHR 0xCF, CHR 0x83]"
    by (simp_all add: ex_env_sigma_def ex_lower_sigma_def capital_alpha_sigma_def capital_sigma_def)
  have d: "captions ex_dataset_sigma ! 0 = [CHR 0xCE, CHR 0xB1, CHR 0xCF, CHR 0x82]"
    by code_simp
  have e: "map_sum id fst (fst (getitem ex_env_sigma ex_dataset_sigma 0 None ex_world1_sigma))
        = Inr [CHR 0xCE, CHR 0xB1, CHR 0xCF, CHR 0x82]"
    by code_simp
  have f: "spec_replace_ignoring_case capital_sigma ''x'' ([CHR 0xCE, CHR 0x91] @ capital_sigma)
        = [CHR 0xCE, CHR 0x91] @ ''x''"
    by code_simp
  from ex_init_sigma a b c d e f show ?thesis by (simp only: simp_thms) simp
qed

subsection \<open>C7: reading one past the end\<close>

text \<open>
  C7, as amended. A read at the index equal to the number of rows returns no value.
  In memory it raises IndexError from the list of latents and changes nothing. On disk
  it raises as well: FileNotFoundError for the latent artifact of that index when no
  such file exists; otherwise an error of loading or using what the files of that name
  hold, or KeyError from the caption lookup.
\<close>

theorem read_past_end_fails:
  assumes "init env args w = (Inr ds, w1)"
  shows "(do_cache ds \<longrightarrow> getitem env ds (int (len ds)) r w2 = (Inl IndexError, w2))
       \<and> (\<not> do_cache ds \<longrightarrow>
            (\<exists>e w3. getitem env ds (int (len ds)) r w2 = (Inl e, w3)
               \<and> (e = KeyError (int (len ds)) \<or> e = AttributeError ''sample''
                    \<or> (\<exists>p. e = FileNotFoundError p) \<or> (\<exists>p. e = UnpicklingError p)))
          \<and> (fs w2 (latent_file (data_dir ds) (int (len ds))) = None \<longrightarrow>
               getitem env ds (int (len ds)) r w2
                 = (Inl (FileNotFoundError (latent_file (data_dir ds) (int (len ds)))), w2)))"
proof (intro conjI impI)
  assume "do_cache ds"
  with init_cache_lengths(2)[OF assms] obtain ls where
    "vae_latents ds = Some ls" "length ls = len ds" by blast
  with getitem_past_end_in_memory[OF \<open>do_cache ds\<close>, of ls env r w2]
  show "getitem env ds (int (len ds)) r w2 = (Inl IndexError, w2)" by simp
next
  assume "\<not> do_cache ds"
  from getitem_past_end_on_disk[OF this, of env r w2] init_cache_lengths(1)[OF assms]
  show "\<exists>e w3. getitem env ds (int (len ds)) r w2 = (Inl e, w3)
               \<and> (e = KeyError (int (len ds)) \<or> e = AttributeError ''sample''
                    \<or> (\<exists>p. e = FileNotFoundError p) \<or> (\<exists>p. e = UnpicklingError p))"
    by simp
next
  assume "\<not> do_cache ds" "fs w2 (latent_file (data_dir ds) (int (len ds))) = None"
  then show "getitem env ds (int (len ds)) r w2
                 = (Inl (FileNotFoundError (latent_file (data_dir ds) (int (len ds)))), w2)"
    by (rule getitem_missing_artifact)
qed

theorem read_past_end_fails_witness:
  "init ex_env ex_args ex_world = (Inr ex_dataset, ex_world1) \<and> do_cache ex_dataset
   \<and> getitem ex_env ex_dataset 2 None ex_world1 = (Inl IndexError, ex_world1)
   \<and> init ex_env ex_args ex_world_500 = (Inr ex_dataset_500, ex_world1_500)
   \<and> \<not> do_cache ex_dataset_500
   \<and> fs ex_world1_500 (latent_file (data_dir ex_dataset_500) (int (len ex_dataset_500))) = None
   \<and> getitem ex_env ex_dataset_500 500 None ex_world1_500
       = (Inl (FileNotFoundError (latent_file (data_dir ex_dataset_500) 500)), ex_world1_500)"
proof -
  have dc: "do_cache ex_dataset"
    using init_fields[OF ex_init] ex_csv by (auto simp: ex_df_def)
  have dir: "data_dir ex_dataset_500 = ''data''"
    using init_fields[OF ex_init_500] by (auto simp: ex_args_def)
  have name: "latent_file ''data'' 500 = ''data/500_vae_latent.pt''" by code_simp
  have none: "fs ex_world1_500 (latent_file (data_dir ex_dataset_500) (int (len ex_dataset_500))) = None"
    using ex_no_artifact_500 by (simp add: dir ex_len_500 name)
  from read_past_end_fails[OF ex_init, of None ex_world1]
    read_past_end_fails[OF ex_init_500, of None ex_world1_500]
    dc ex_len_500 none ex_init ex_init_500 ex_len
  show ?thesis by simp
qed

theorem read_past_end_on_disk_counterexample:
  "init ex_env ex_args ex_world_500 = (Inr ex_dataset_500, ex_world1_500)
   \<and> len ex_dataset_500 = 500
   \<and> getitem ex_env ex_dataset_500 500 None ex_world1_500
       = (Inl (FileNotFoundError ''data/500_vae_latent.pt''), ex_world1_500)"
proof -
  have dir: "data_dir ex_dataset_500 = ''data''"
    using init_fields[OF ex_init_500] by (auto simp: ex_args_def)
  have name: "latent_file ''data'' 500 = ''data/500_vae_latent.pt''" by code_simp
  from getitem_missing_artifact[OF ex_len_500(2), of ex_world1_500 500 ex_env None]
    ex_no_artifact_500
  have "getitem ex_env ex_dataset_500 500 None ex_world1_500
       = (Inl (FileNotFoundError ''data/500_vae_latent.pt''), ex_world1_500)"
    by (simp add: dir name)
  with ex_init_500 ex_len_500(1) show ?thesis by simp
qed

subsection \<open>C8: the second tokenizer slot\<close>

text \<open>
  C8, as amended. When \<open>tokenizer_2\<close> is \<open>None\<close>, the return step of the method keeps
  the second-tokenizer slot and fills it with \<open>None\<close>: from the lists of at least one
  first-tokenizer tensor, latent and mask per index, each with a leading batch
  dimension added, all of one shape per list, it returns the pair of the stacked
  first-tokenizer tensors and \<open>None\<close>, the stacked latents and the stacked masks; each
  stack has the number of indices as its leading dimension.
\<close>

theorem stacked_batch_keeps_empty_second_slot:
  assumes "ts \<noteq> []" and "\<forall>t\<in>set ts. shape t = shape (hd ts)"
    and "ls \<noteq> []" and "\<forall>t\<in>set ls. shape t = shape (hd ls)"
    and "ms \<noteq> []" and "\<forall>t\<in>set ms. shape t = shape (hd ms)"
  shows "stack_batch AttrNone (map unsqueeze0 ts, tok2, map unsqueeze0 ls, map unsqueeze0 ms) =
     Inr (PTuple
       [PTuple [PTensor \<lparr>shape = length ts # shape (hd ts), elems = concat (map elems ts),
                         requires_grad = list_ex requires_grad ts\<rparr>,
                PNone],
        PTensor \<lparr>shape = length ls # shape (hd ls), elems = concat (map elems ls),
                 requires_grad = list_ex requires_grad ls\<rparr>,
        PTensor \<lparr>shape = length ms # shape (hd ms), elems = concat (map elems ms),
                 requires_grad = list_ex requires_grad ms\<rparr>])"
  by (simp add: stack_batch_def torch_cat_unsqueezed[OF assms(1,2)]
        torch_cat_unsqueezed[OF assms(3,4)] torch_cat_unsqueezed[OF assms(5,6)])

theorem stacked_batch_keeps_empty_second_slot_witness:
  "[\<lparr>shape = [2], elems = [5, 6 :: int], requires_grad = False\<rparr>] \<noteq> []
   \<and> set [\<lparr>shape = [2], elems = [5, 6 :: int], requires_grad = False\<rparr>]
        = {\<lparr>shape = [2], elems = [5, 6 :: int], requires_grad = False\<rparr>}
   \<and> shape \<lparr>shape = [2], elems = [5, 6 :: int], requires_grad = False\<rparr>
        = shape (hd [\<lparr>shape = [2], elems = [5, 6 :: int], requires_grad = False\<rparr>])
   \<and> stack_batch AttrNone
        (map unsqueeze0 [\<lparr>shape = [2], elems = [5, 6 :: int], requires_grad = False\<rparr>], [],
         map unsqueeze0 [\<lparr>shape = [2], elems = [5, 6], requires_grad = False\<rparr>],
         map unsqueeze0 [\<lparr>shape = [2], elems = [5, 6], requires_grad = False\<rparr>]) =
      Inr (PTuple
        [PTuple [PTensor \<lparr>shape = [1, 2], elems = [5, 6], requires_grad = False\<rparr>, PNone],
         PTensor \<lparr>shape = [1, 2], elems = [5, 6], requires_grad = False\<rparr>,
         PTensor \<lparr>shape = [1, 2], elems = [5, 6], requires_grad = False\<rparr>])"
proof -
  let ?t = "\<lparr>shape = [2], elems = [5, 6 :: int], requires_grad = False\<rparr>"
  have a: "[?t] \<noteq> []" "\<forall>t\<in>set [?t]. shape t = shape (hd [?t])" by simp_all
  from stacked_batch_keeps_empty_second_slot[OF a a a, of "[]"] a
  show ?thesis by simp
qed

text \<open>
  The return step does put a second slot in its output, and the method as a whole
  returns nothing on a dataset with \<open>tokenizer_2\<close> set to \<open>None\<close> afterwards: the
  first component \<open>__getitem__\<close> returns is the caption, a string, which has no
  \<open>unsqueeze\<close>.
\<close>

theorem second_slot_not_omitted_counterexample:
  "stack_batch AttrNone
     ([\<lparr>shape = [1, 2], elems = [5, 6 :: int], requires_grad = False\<rparr>], [],
      [\<lparr>shape = [1, 2], elems = [5, 6], requires_grad = False\<rparr>],
      [\<lparr>shape = [1, 2], elems = [5, 6], requires_grad = False\<rparr>]) =
   Inr (PTuple
     [PTuple [PTensor \<lparr>shape = [1, 2], elems = [5, 6], requires_grad = False\<rparr>, PNone],
      PTensor \<lparr>shape = [1, 2], elems = [5, 6], requires_grad = False\<rparr>,
      PTensor \<lparr>shape = [1, 2], elems = [5, 6], requires_grad = False\<rparr>])
   \<and> fst (get_aspect_ratio_bucketed_batch ex_env
            (ex_dataset_bucketing\<lparr>tokenizer_2 := AttrNone\<rparr>) ex_world1)
       = Inl (AttributeError ''unsqueeze'')"
proof -
  have "stack_batch AttrNone
     ([\<lparr>shape = [1, 2], elems = [5, 6 :: int], requires_grad = False\<rparr>], [],
      [\<lparr>shape = [1, 2], elems = [5, 6], requires_grad = False\<rparr>],
      [\<lparr>shape = [1, 2], elems = [5, 6], requires_grad = False\<rparr>]) =
   Inr (PTuple
     [PTuple [PTensor \<lparr>shape = [1, 2], elems = [5, 6], requires_grad = False\<rparr>, PNone],
      PTensor \<lparr>shape = [1, 2], elems = [5, 6], requires_grad = False\<rparr>,
      PTensor \<lparr>shape = [1, 2], elems = [5, 6], requires_grad = False\<rparr>])"
    by (simp add: stack_batch_def torch_cat_def)
  moreover have "isl (fst (get_aspect_ratio_bucketed_batch ex_env
            (ex_dataset_bucketing\<lparr>tokenizer_2 := AttrNone\<rparr>) ex_world1))"
    and "projl (fst (get_aspect_ratio_bucketed_batch ex_env
            (ex_dataset_bucketing\<lparr>tokenizer_2 := AttrNone\<rparr>) ex_world1))
       = AttributeError ''unsqueeze''"
    by code_simp+
  then have "fst (get_aspect_ratio_bucketed_batch ex_env
            (ex_dataset_bucketing\<lparr>tokenizer_2 := AttrNone\<rparr>) ex_world1)
       = Inl (AttributeError ''unsqueeze'')"
    by (metis sum.collapse(1))
  ultimately show ?thesis by simp
qed

subsection \<open>C9: a bucketed batch without bucketing\<close>

text \<open>
  C9. On a dataset constructed with bucketing disabled, asking for a bucketed batch
  fails at once with the assertion of line 110: no batch is returned, and neither the
  dataset nor the world (no file is read, no sample drawn) has changed.
\<close>

theorem bucketed_batch_without_bucketing_fails:
  assumes "init env args w = (Inr ds, w1)"
    and "\<not> arg_aspect_ratio_bucketing args"
  shows "get_aspect_ratio_bucketed_batch env ds w2 = (Inl AssertionError, ds, w2)"
proof -
  from init_fields[OF assms(1)] assms(2) have "bucket_manager ds = None" by auto
  then show ?thesis by (simp add: get_aspect_ratio_bucketed_batch_def)
qed

theorem bucketed_batch_without_bucketing_fails_witness:
  "init ex_env ex_args ex_world = (Inr ex_dataset, ex_world1)
   \<and> \<not> arg_aspect_ratio_bucketing ex_args
   \<and> get_aspect_ratio_bucketed_batch ex_env ex_dataset ex_world1
       = (Inl AssertionError, ex_dataset, ex_world1)"
  using bucketed_batch_without_bucketing_fails[OF ex_init ex_args_no_bucketing, of ex_world1]
    ex_init ex_args_no_bucketing
  by simp

subsection \<open>C10: releasing the encoder\<close>

text \<open>
  C10, as amended. The constructor stores the encoder before the eager pass and
  releases it (the attribute is deleted and \<open>torch.cuda.empty_cache()\<close> runs once) right
  after the pass when the pass completes: a dataset that was constructed has no
  encoder, and the cache was emptied also when a later step of the constructor fails.
  When the pass itself fails, the constructor raises that error at once and the release
  does not run.
\<close>

theorem encoder_released_after_completed_pass:
  "vae_encoder (init_attributes env args df :: ('a::{one,times}, 'd, 'i, 'b) dataset)
      = Some (arg_vae_encoder args)
   \<and> (init env args w = (Inr (ds :: ('a, 'd, 'i, 'b) dataset), w1) \<longrightarrow>
        vae_encoder ds = None \<and> empty_cache_calls w1 = Suc (empty_cache_calls w))
   \<and> (read_csv (fs w) (path_join (arg_data_dir args) ''captions.csv'') = Inr df
        \<and> eager_pass env (init_attributes env args df) w = (Inr self, w')
      \<longrightarrow> empty_cache_calls (snd (init env args w)) = Suc (empty_cache_calls w))
   \<and> (read_csv (fs w) (path_join (arg_data_dir args) ''captions.csv'') = Inr df
        \<and> eager_pass env (init_attributes env args df) w = (Inl e, w')
      \<longrightarrow> init env args w = (Inl e, w') \<and> empty_cache_calls w' = empty_cache_calls w)"
proof (intro conjI impI)
  show "vae_encoder (init_attributes env args df :: ('a, 'd, 'i, 'b) dataset) = Some (arg_vae_encoder args)"
    by (simp add: init_attributes_def)
next
  assume i: "init env args w = (Inr ds, w1)"
  from init_fields[OF i] show "vae_encoder ds = None" by blast
  from init_Inr[OF i] obtain df0 self0 w0 where
    ep: "eager_pass env (init_attributes env args df0) w = (Inr self0, w0)"
    and w1: "w1 = w0\<lparr>empty_cache_calls := Suc (empty_cache_calls w0)\<rparr>"
    by blast
  from eager_pass_empty_cache_calls[OF ep] w1
  show "empty_cache_calls w1 = Suc (empty_cache_calls w)" by simp
next
  assume a: "read_csv (fs w) (path_join (arg_data_dir args) ''captions.csv'') = Inr df
        \<and> eager_pass env (init_attributes env args df) w = (Inr self, w')"
  then have "snd (init env args w) = w'\<lparr>empty_cache_calls := Suc (empty_cache_calls w')\<rparr>"
    by (simp add: init_def release_encoder_def)
  with eager_pass_empty_cache_calls[of env "init_attributes env args df" w "Inr self" w'] a
  show "empty_cache_calls (snd (init env args w)) = Suc (empty_cache_calls w)" by simp
next
  assume a: "read_csv (fs w) (path_join (arg_data_dir args) ''captions.csv'') = Inr df
        \<and> eager_pass env (init_attributes env args df) w = (Inl e, w')"
  then show "init env args w = (Inl e, w')" by (simp add: init_def)
  from eager_pass_empty_cache_calls[of env "init_attributes env args df" w "Inl e" w'] a
  show "empty_cache_calls w' = empty_cache_calls w" by simp
qed

theorem encoder_released_after_completed_pass_witness:
  "init ex_env ex_args ex_world = (Inr ex_dataset, ex_world1)
   \<and> vae_encoder ex_dataset = None
   \<and> empty_cache_calls ex_world1 = Suc (empty_cache_calls ex_world)
   \<and> read_csv (fs ex_world) (path_join (arg_data_dir ex_args) ''captions.csv'') = Inr ex_df
   \<and> eager_pass ex_env (init_attributes ex_env ex_args ex_df) ex_world =
       (Inr (projr (fst (eager_pass ex_env (init_attributes ex_env ex_args ex_df) ex_world))),
        snd (eager_pass ex_env (init_attributes ex_env ex_args ex_df) ex_world))
   \<and> empty_cache_calls (snd (init ex_env ex_args ex_world)) = Suc (empty_cache_calls ex_world)
   \<and> read_csv (fs ex_world_missing) (path_join (arg_data_dir ex_args) ''captions.csv'') = Inr ex_df
   \<and> eager_pass ex_env (init_attributes ex_env ex_args ex_df) ex_world_missing =
       (Inl (FileNotFoundError ''data/b.png''),
        snd (eager_pass ex_env (init_attributes ex_env ex_args ex_df) ex_world_missing))
   \<and> init ex_env ex_args ex_world_missing =
       (Inl (FileNotFoundError ''data/b.png''),
        snd (eager_pass ex_env (init_attributes ex_env ex_args ex_df) ex_world_missing))
   \<and> empty_cache_calls (snd (eager_pass ex_env (init_attributes ex_env ex_args ex_df) ex_world_missing))
       = empty_cache_calls ex_world_missing"
  using encoder_released_after_completed_pass[of ex_env ex_args ex_df ex_world ex_dataset ex_world1
      "projr (fst (eager_pass ex_env (init_attributes ex_env ex_args ex_df) ex_world))"
      "snd (eager_pass ex_env (init_attributes ex_env ex_args ex_df) ex_world)"]
    encoder_released_after_completed_pass[of ex_env ex_args ex_df ex_world_missing ex_dataset ex_world1
      _ "snd (eager_pass ex_env (init_attributes ex_env ex_args ex_df) ex_world_missing)"
      "FileNotFoundError ''data/b.png''"]
    ex_init ex_csv ex_csv_missing ex_eager_pass ex_eager_pass_missing
  by simp

theorem encoder_not_released_on_failure_counterexample:
  "fst (init ex_env ex_args ex_world_missing) = Inl (FileNotFoundError ''data/b.png'')
   \<and> rng ex_world_missing = 7
   \<and> rng (snd (init ex_env ex_args ex_world_missing)) = 8
   \<and> empty_cache_calls ex_world_missing = 0
   \<and> empty_cache_calls (snd (init ex_env ex_args ex_world_missing)) = 0"
proof -
  have "isl (fst (init ex_env ex_args ex_world_missing))"
    and "projl (fst (init ex_env ex_args ex_world_missing)) = FileNotFoundError ''data/b.png''"
    by code_simp+
  then have "fst (init ex_env ex_args ex_world_missing) = Inl (FileNotFoundError ''data/b.png'')"
    by (metis sum.collapse(1))
  moreover have "rng ex_world_missing = 7" "empty_cache_calls ex_world_missing = 0"
    by (simp_all add: ex_world_missing_def)
  moreover have "rng (snd (init ex_env ex_args ex_world_missing)) = 8"
    and "empty_cache_calls (snd (init ex_env ex_args ex_world_missing)) = 0"
    by code_simp+
  ultimately show ?thesis by simp
qed

end
